theory Spec2Isabelle
  imports Complex_Main "HOL-Library.AList"
begin

section \<open>Python values, as \<^verbatim>\<open>app.py\<close> sees them\<close>

text \<open>
  A Python \<^verbatim>\<open>str\<close> is a sequence of Unicode code points, so a string of the model is a
  list of code points. The literals of the source are ASCII and are written
  \<open>str ''...''\<close>.
\<close>

type_synonym pystr = "nat list"

definition str :: "string \<Rightarrow> pystr" where
  "str s = map of_char s"

text \<open>
  A Python \<^verbatim>\<open>float\<close> is one of the finite doubles (held as the rational it denotes,
  the two zeros being one value), an infinity or nan.
\<close>

datatype pyfloat = Finite rat | PosInf | NegInf | NaN

text \<open>
  What \<^verbatim>\<open>r.json()\<close> returns, and what is passed to \<^verbatim>\<open>params=\<close> and \<^verbatim>\<open>data=\<close>:
  \<^verbatim>\<open>None\<close>, \<^verbatim>\<open>bool\<close>, \<^verbatim>\<open>int\<close>, \<^verbatim>\<open>float\<close>, \<^verbatim>\<open>str\<close>, \<^verbatim>\<open>list\<close> and \<^verbatim>\<open>dict\<close>. A dict is
  an association list in insertion order; a lookup takes the first entry of a key.
\<close>

datatype pyval =
    PNone
  | PBool bool
  | PInt int
  | PFloat pyfloat
  | PStr pystr
  | PList "pyval list"
  | PDict "(pystr \<times> pyval) list"

type_synonym pydict = "(pystr \<times> pyval) list"

text \<open>The exceptions that the source raises without catching them.\<close>

datatype exc =
    AttributeError
  | KeyError
  | TypeError
  | ValueError
  | OverflowError
  | IndexError
  | JSONDecodeError
  | TransportError

text \<open>
  The parts of the interpreter that \<^verbatim>\<open>app.py\<close> calls and that are tables or
  floating-point routines of CPython: the Unicode class of decimal digits (what \<^verbatim>\<open>\d\<close>
  matches in a \<^verbatim>\<open>str\<close> pattern), the conversion of a string to a double (\<open>None\<close> is
  \<^verbatim>\<open>ValueError\<close>), the conversion of an integer beyond \<open>2 ^ 53\<close> to a double (\<open>None\<close>
  is \<^verbatim>\<open>OverflowError\<close>), and the text of a float, a list or a dict.
\<close>

record runtime =
  isdecimal :: "nat \<Rightarrow> bool"
  float_of_str :: "pystr \<Rightarrow> pyfloat option"
  float_of_big :: "int \<Rightarrow> pyfloat option"
  repr :: "pyval \<Rightarrow> pystr"

text \<open>\<^verbatim>\<open>bool(x)\<close>, as \<^verbatim>\<open>not x\<close> and \<^verbatim>\<open>x or y\<close> use it.\<close>

fun truthy :: "pyval \<Rightarrow> bool" where
  "truthy PNone = False"
| "truthy (PBool b) = b"
| "truthy (PInt i) = (i \<noteq> 0)"
| "truthy (PFloat f) = (f \<noteq> Finite 0)"
| "truthy (PStr s) = (s \<noteq> [])"
| "truthy (PList xs) = (xs \<noteq> [])"
| "truthy (PDict kvs) = (kvs \<noteq> [])"

text \<open>
  \<^verbatim>\<open>x.get(k, d)\<close>: only a dict has the method; on every other value of \<open>pyval\<close> the
  attribute lookup raises \<^verbatim>\<open>AttributeError\<close>.
\<close>

definition py_get :: "pyval \<Rightarrow> pystr \<Rightarrow> pyval \<Rightarrow> exc + pyval" where
  "py_get x k d =
     (case x of
        PDict kvs \<Rightarrow> Inr (case map_of kvs k of None \<Rightarrow> d | Some v \<Rightarrow> v)
      | _ \<Rightarrow> Inl AttributeError)"

text \<open>
  \<^verbatim>\<open>x[k]\<close> with a string key: \<^verbatim>\<open>KeyError\<close> on a dict without the key, \<^verbatim>\<open>TypeError\<close>
  on a list or a string (their indices are integers) and on a value that is not
  subscriptable.
\<close>

definition py_index :: "pyval \<Rightarrow> pystr \<Rightarrow> exc + pyval" where
  "py_index x k =
     (case x of
        PDict kvs \<Rightarrow> (case map_of kvs k of None \<Rightarrow> Inl KeyError | Some v \<Rightarrow> Inr v)
      | _ \<Rightarrow> Inl TypeError)"

text \<open>The decimal text of a natural number and of an integer.\<close>

function dec :: "nat \<Rightarrow> pystr" where
  "dec n = (if n < 10 then [48 + n] else dec (n div 10) @ [48 + n mod 10])"
  by pat_completeness auto
termination
  by (relation "measure id") auto

declare dec.simps [simp del]

text \<open>\<^verbatim>\<open>str(x)\<close>, also inside an f-string.\<close>

definition py_str :: "runtime \<Rightarrow> pyval \<Rightarrow> pystr" where
  "py_str rt v =
     (case v of
        PNone \<Rightarrow> str ''None''
      | PBool b \<Rightarrow> (if b then str ''True'' else str ''False'')
      | PInt i \<Rightarrow> (if i < 0 then str ''-'' @ dec (nat (- i)) else dec (nat i))
      | PStr s \<Rightarrow> s
      | _ \<Rightarrow> repr rt v)"

text \<open>
  \<^verbatim>\<open>float(x)\<close>. An integer of magnitude at most \<open>2 ^ 53\<close> is a double and converts
  exactly.
\<close>

definition py_float :: "runtime \<Rightarrow> pyval \<Rightarrow> exc + pyfloat" where
  "py_float rt v =
     (case v of
        PNone \<Rightarrow> Inl TypeError
      | PBool b \<Rightarrow> Inr (Finite (if b then 1 else 0))
      | PInt i \<Rightarrow>
          (if \<bar>i\<bar> \<le> 2 ^ 53 then Inr (Finite (of_int i))
           else (case float_of_big rt i of None \<Rightarrow> Inl OverflowError | Some f \<Rightarrow> Inr f))
      | PFloat f \<Rightarrow> Inr f
      | PStr s \<Rightarrow> (case float_of_str rt s of None \<Rightarrow> Inl ValueError | Some f \<Rightarrow> Inr f)
      | PList _ \<Rightarrow> Inl TypeError
      | PDict _ \<Rightarrow> Inl TypeError)"

text \<open>\<^verbatim>\<open>a < b\<close> on floats: false as soon as one side is nan.\<close>

fun float_lt :: "pyfloat \<Rightarrow> pyfloat \<Rightarrow> bool" where
  "float_lt (Finite a) (Finite b) = (a < b)"
| "float_lt (Finite a) PosInf = True"
| "float_lt NegInf (Finite b) = True"
| "float_lt NegInf PosInf = True"
| "float_lt _ _ = False"

text \<open>\<^verbatim>\<open>s.startswith(p)\<close>.\<close>

definition startswith :: "pystr \<Rightarrow> pystr \<Rightarrow> bool" where
  "startswith s p = (take (length p) s = p)"

section \<open>\<^verbatim>\<open>digits\<close>\<close>

text \<open>
  \<^verbatim>\<open>re.sub(r"\D", "", s)\<close> scans \<open>s\<close> from the left; the pattern matches one character
  that is not a decimal digit, each match is replaced by the empty string and every
  other character is copied.
\<close>

fun re_sub_nondigit :: "runtime \<Rightarrow> pystr \<Rightarrow> pystr" where
  "re_sub_nondigit rt [] = []"
| "re_sub_nondigit rt (c # cs) =
     (if \<not> isdecimal rt c then [] @ re_sub_nondigit rt cs else c # re_sub_nondigit rt cs)"

text \<open>\<^verbatim>\<open>digits(s)\<close>; \<^verbatim>\<open>s or ""\<close> turns \<^verbatim>\<open>None\<close> into the empty string.\<close>

definition digits :: "runtime \<Rightarrow> pystr option \<Rightarrow> pystr" where
  "digits rt s = re_sub_nondigit rt (case s of None \<Rightarrow> [] | Some v \<Rightarrow> (if v = [] then [] else v))"

section \<open>Errors\<close>

text \<open>
  Every \<^verbatim>\<open>raise HTTPException(status, detail)\<close> of the source, by its status and its
  message; the value formatted into the message is kept as it is.
\<close>

datatype detail =
    TokenHtml            \<comment> \<open>\<^verbatim>\<open>"FACTA retornou pagina HTML (WAF). Peca whitelist de IP."\<close>\<close>
  | TokenError pystr     \<comment> \<open>\<^verbatim>\<open>f"Token error: {r.text}"\<close>\<close>
  | TokenVazio pyval     \<comment> \<open>\<^verbatim>\<open>f"Token vazio: {j}"\<close>\<close>
  | ConsultaHtml         \<comment> \<open>\<^verbatim>\<open>"FACTA retornou HTML (WAF). Peca whitelist de IP."\<close>\<close>
  | ConsultaError pystr  \<comment> \<open>\<^verbatim>\<open>f"Consulta error: {r.text}"\<close>\<close>
  | SemTabela            \<comment> \<open>\<^verbatim>\<open>"Sem tabela disponivel para os parametros informados."\<close>\<close>
  | FalhaEtapa1 pyval    \<comment> \<open>\<^verbatim>\<open>f"Falha etapa1: {j2}"\<close>\<close>
  | FalhaEtapa2 pyval    \<comment> \<open>\<^verbatim>\<open>f"Falha etapa2: {j3}"\<close>\<close>
  | FalhaEtapa3 pyval    \<comment> \<open>\<^verbatim>\<open>f"Falha etapa3: {j4}"\<close>\<close>

text \<open>
  An operation ends with a value, with an \<^verbatim>\<open>HTTPException\<close>, or with an exception that
  nothing catches (the framework answers 500).
\<close>

datatype error = HTTPException nat detail | Unhandled exc

text \<open>
  The error kinds of the specification (section 7), as names for the raises above; an
  exception that the source does not catch has no kind of its own.
\<close>

datatype kind =
    UpstreamBlocked
  | UpstreamUnavailable
  | UpstreamProtocolError
  | NoEligibleTable
  | StepFailed string pyval
  | Unclassified exc

fun spec_kind :: "error \<Rightarrow> kind" where
  "spec_kind (HTTPException s TokenHtml) = UpstreamBlocked"
| "spec_kind (HTTPException s ConsultaHtml) = UpstreamBlocked"
| "spec_kind (HTTPException s (TokenError t)) = UpstreamUnavailable"
| "spec_kind (HTTPException s (TokenVazio j)) = UpstreamProtocolError"
| "spec_kind (HTTPException s (ConsultaError t)) = UpstreamProtocolError"
| "spec_kind (HTTPException s SemTabela) = NoEligibleTable"
| "spec_kind (HTTPException s (FalhaEtapa1 j)) = StepFailed ''simulate'' j"
| "spec_kind (HTTPException s (FalhaEtapa2 j)) = StepFailed ''register'' j"
| "spec_kind (HTTPException s (FalhaEtapa3 j)) = StepFailed ''proposal'' j"
| "spec_kind (Unhandled x) = Unclassified x"

section \<open>The lender, through \<^verbatim>\<open>httpx\<close>\<close>

record config =
  FACTA_BASE :: pystr
  BASIC_AUTH :: "pystr option"
  LOGIN_CERT :: pystr
  TIMEOUT :: int

datatype meth = GET | POST

text \<open>
  A request as it is handed to \<^verbatim>\<open>cx.get\<close> or \<^verbatim>\<open>cx.post\<close>: \<open>payload\<close> is \<^verbatim>\<open>params=\<close>
  of a GET and \<^verbatim>\<open>data=\<close> of a POST.
\<close>

record request =
  meth :: meth
  url :: pystr
  headers :: "(pystr \<times> pystr option) list"
  payload :: pydict

text \<open>
  What the source reads of a response: \<^verbatim>\<open>r.status_code\<close>, the \<^verbatim>\<open>content-type\<close> header
  when there is one, \<^verbatim>\<open>r.text\<close>, and the value of \<^verbatim>\<open>r.json()\<close> (\<open>None\<close> when decoding
  raises).
\<close>

record response =
  status_code :: int
  content_type :: "pystr option"
  r_text :: pystr
  json_body :: "pyval option"

text \<open>
  The lender answers a request with a response, or the call raises (no connection, a
  timeout). Within one operation every request goes to a different address, so a
  function of the request covers every behaviour of the lender.
\<close>

type_synonym lender = "request \<Rightarrow> exc + response"

text \<open>
  An operation returns the requests it has sent, in order, and how it ended.
\<close>

type_synonym 'a run = "request list \<times> (error + 'a)"

definition and_then :: "'a run \<Rightarrow> ('a \<Rightarrow> 'b run) \<Rightarrow> 'b run" where
  "and_then m f =
     (case m of
        (tr, Inl e) \<Rightarrow> (tr, Inl e)
      | (tr, Inr a) \<Rightarrow> (case f a of (tr', r) \<Rightarrow> (tr @ tr', r)))"

definition fail :: "error \<Rightarrow> 'a run" where
  "fail e = ([], Inl e)"

definition ret :: "'a \<Rightarrow> 'a run" where
  "ret a = ([], Inr a)"

text \<open>A computation that sends nothing; its exception is not caught.\<close>

definition lift :: "exc + 'a \<Rightarrow> 'a run" where
  "lift x = (case x of Inl e \<Rightarrow> ([], Inl (Unhandled e)) | Inr a \<Rightarrow> ([], Inr a))"

definition ebind :: "exc + 'a \<Rightarrow> ('a \<Rightarrow> exc + 'b) \<Rightarrow> exc + 'b" where
  "ebind x f = (case x of Inl e \<Rightarrow> Inl e | Inr a \<Rightarrow> f a)"

definition send :: "lender \<Rightarrow> request \<Rightarrow> response run" where
  "send L rq = ([rq], case L rq of Inl x \<Rightarrow> Inl (Unhandled x) | Inr r \<Rightarrow> Inr r)"

definition cx_get :: "lender \<Rightarrow> pystr \<Rightarrow> pydict \<Rightarrow> (pystr \<times> pystr option) list \<Rightarrow> response run" where
  "cx_get L u params hs = send L \<lparr>meth = GET, url = u, headers = hs, payload = params\<rparr>"

definition cx_post :: "lender \<Rightarrow> pystr \<Rightarrow> (pystr \<times> pystr option) list \<Rightarrow> pydict \<Rightarrow> response run" where
  "cx_post L u hs data = send L \<lparr>meth = POST, url = u, headers = hs, payload = data\<rparr>"

text \<open>\<^verbatim>\<open>r.headers.get("content-type", "").startswith("text/html")\<close>\<close>

definition is_html :: "response \<Rightarrow> bool" where
  "is_html r = startswith (case content_type r of None \<Rightarrow> [] | Some v \<Rightarrow> v) (str ''text/html'')"

text \<open>\<^verbatim>\<open>r.json()\<close>\<close>

definition r_json :: "response \<Rightarrow> exc + pyval" where
  "r_json r = (case json_body r of None \<Rightarrow> Inl JSONDecodeError | Some j \<Rightarrow> Inr j)"

text \<open>\<^verbatim>\<open>a or b\<close>: \<open>b\<close> is evaluated only when \<open>a\<close> is falsy.\<close>

definition py_or :: "pyval \<Rightarrow> exc + pyval \<Rightarrow> exc + pyval" where
  "py_or a b = (if truthy a then Inr a else b)"

section \<open>\<^verbatim>\<open>get_token\<close>\<close>

definition get_token :: "config \<Rightarrow> runtime \<Rightarrow> lender \<Rightarrow> pyval run" where
  "get_token cfg rt L =
     (let hs = [(str ''Authorization'', BASIC_AUTH cfg),
                (str ''Accept'', Some (str ''application/json'')),
                (str ''User-Agent'', Some (str ''helena-facta-api/1.0''))]
      in and_then (cx_get L (FACTA_BASE cfg @ str ''/gera-token'') [] hs) (\<lambda>r.
           if is_html r then fail (HTTPException 502 TokenHtml)
           else if status_code r \<noteq> 200 then fail (HTTPException 502 (TokenError (r_text r)))
           else and_then (lift (r_json r)) (\<lambda>j.
                and_then (lift (py_get j (str ''token'') PNone)) (\<lambda>token.
                  if \<not> truthy token then fail (HTTPException 502 (TokenVazio j))
                  else ret token))))"

section \<open>\<^verbatim>\<open>consulta_ofertas\<close>\<close>

record ConsultaIn =
  nome :: pystr
  cpf :: pystr
  data_nascimento :: pystr
  meses_vinculo :: "int option"
  renda :: "pyfloat option"
  canal :: "pystr option"
  origem :: "pystr option"
  id_contato :: "pystr option"
  telefone :: "pystr option"

text \<open>
  The entry appended for one element \<open>d\<close> of \<^verbatim>\<open>ofertas_raw\<close>:
  \<^verbatim>\<open>{"oferta": d.get("oferta") or d.get("descricao"),
    "resposta": d.get("resposta") or d.get("situacao")}\<close>
\<close>

definition oferta_entry :: "pyval \<Rightarrow> exc + pyval" where
  "oferta_entry d =
     ebind (py_get d (str ''oferta'') PNone) (\<lambda>a.
     ebind (py_or a (py_get d (str ''descricao'') PNone)) (\<lambda>oferta.
     ebind (py_get d (str ''resposta'') PNone) (\<lambda>b.
     ebind (py_or b (py_get d (str ''situacao'') PNone)) (\<lambda>resposta.
       Inr (PDict [(str ''oferta'', oferta), (str ''resposta'', resposta)])))))"

text \<open>The loop \<^verbatim>\<open>for d in ofertas_raw: ofertas.append(...)\<close>, from the list built so far.\<close>

fun ofertas_loop :: "pyval list \<Rightarrow> pyval list \<Rightarrow> exc + pyval list" where
  "ofertas_loop [] ofertas = Inr ofertas"
| "ofertas_loop (d # ds) ofertas =
     (case oferta_entry d of
        Inl e \<Rightarrow> Inl e
      | Inr entry \<Rightarrow> ofertas_loop ds (ofertas @ [entry]))"

text \<open>Line 110: \<^verbatim>\<open>ofertas_raw = j.get("dados") or j.get("ofertas") or []\<close>\<close>

definition ofertas_raw :: "pyval \<Rightarrow> exc + pyval" where
  "ofertas_raw j =
     ebind (py_get j (str ''dados'') PNone) (\<lambda>a.
     ebind (py_or a (py_get j (str ''ofertas'') PNone)) (\<lambda>ab.
       py_or ab (Inr (PList []))))"

text \<open>
  Lines 110 to 115, from the parsed body \<open>j\<close> to the list \<^verbatim>\<open>ofertas\<close>: the loop runs when
  \<^verbatim>\<open>ofertas_raw\<close> is a list.
\<close>

definition ofertas_of :: "pyval \<Rightarrow> exc + pyval list" where
  "ofertas_of j =
     ebind (ofertas_raw j) (\<lambda>raw.
       (case raw of
          PList ds \<Rightarrow> ofertas_loop ds []
        | _ \<Rightarrow> Inr []))"

definition consulta_ofertas :: "config \<Rightarrow> runtime \<Rightarrow> lender \<Rightarrow> ConsultaIn \<Rightarrow> pyval run" where
  "consulta_ofertas cfg rt L body =
     and_then (get_token cfg rt L) (\<lambda>token.
       let hs = [(str ''Authorization'', Some (str ''Bearer '' @ py_str rt token)),
                 (str ''Accept'', Some (str ''application/json'')),
                 (str ''User-Agent'', Some (str ''helena-facta-api/1.0''))];
           cpf = digits rt (Some (ConsultaIn.cpf body))
       in and_then (cx_get L (FACTA_BASE cfg @ str ''/consignado-trabalhador/consulta-ofertas'')
                      [(str ''cpf'', PStr cpf)] hs) (\<lambda>r.
            if is_html r then fail (HTTPException 502 ConsultaHtml)
            else (case r_json r of
                    Inl x \<Rightarrow> fail (HTTPException 502 (ConsultaError (r_text r)))
                  | Inr j \<Rightarrow>
                      and_then (lift (ofertas_of j)) (\<lambda>ofertas.
                        ret (PDict [(str ''status'', PStr (str ''ok'')),
                                    (str ''cpf'', PStr cpf),
                                    (str ''total_ofertas'', PInt (int (length ofertas))),
                                    (str ''ofertas'', PList ofertas)])))))"

section \<open>\<^verbatim>\<open>formalizar\<close>\<close>

record FormalizarIn =
  cpf :: pystr
  data_nascimento :: pystr
  renda :: pyfloat
  sexo :: pystr
  opcao_valor :: int
  valor_parcela :: pyfloat
  prazo :: int
  nome :: pystr
  estado_civil :: pystr
  rg :: pystr
  estado_rg :: pystr
  orgao_emissor :: pystr
  data_expedicao :: pystr
  estado_natural :: pystr
  cidade_natural :: pystr
  nacionalidade :: pystr
  celular :: pystr
  cep :: pystr
  endereco :: pystr
  numero :: pystr
  bairro :: pystr
  estado :: pystr
  cidade :: pystr
  nome_mae :: pystr
  nome_pai :: pystr
  valor_patrimonio :: pystr
  cliente_iletrado_impossibilitado :: pystr
  tipo_conta :: pystr
  banco :: pystr
  agencia :: pystr
  conta :: pystr
  tipo_chave_pix :: pystr
  chave_pix :: pystr
  matricula :: pystr
  cnpj_empregador :: pystr
  data_admissao :: pystr

text \<open>\<^verbatim>\<open>body.model_dump()\<close>: every field, in the order of the class.\<close>

definition model_dump :: "FormalizarIn \<Rightarrow> pydict" where
  "model_dump body =
     [(str ''cpf'', PStr (FormalizarIn.cpf body)),
      (str ''data_nascimento'', PStr (FormalizarIn.data_nascimento body)),
      (str ''renda'', PFloat (FormalizarIn.renda body)),
      (str ''sexo'', PStr (sexo body)),
      (str ''opcao_valor'', PInt (opcao_valor body)),
      (str ''valor_parcela'', PFloat (valor_parcela body)),
      (str ''prazo'', PInt (prazo body)),
      (str ''nome'', PStr (FormalizarIn.nome body)),
      (str ''estado_civil'', PStr (estado_civil body)),
      (str ''rg'', PStr (rg body)),
      (str ''estado_rg'', PStr (estado_rg body)),
      (str ''orgao_emissor'', PStr (orgao_emissor body)),
      (str ''data_expedicao'', PStr (data_expedicao body)),
      (str ''estado_natural'', PStr (estado_natural body)),
      (str ''cidade_natural'', PStr (cidade_natural body)),
      (str ''nacionalidade'', PStr (nacionalidade body)),
      (str ''celular'', PStr (celular body)),
      (str ''cep'', PStr (cep body)),
      (str ''endereco'', PStr (endereco body)),
      (str ''numero'', PStr (numero body)),
      (str ''bairro'', PStr (bairro body)),
      (str ''estado'', PStr (estado body)),
      (str ''cidade'', PStr (cidade body)),
      (str ''nome_mae'', PStr (nome_mae body)),
      (str ''nome_pai'', PStr (nome_pai body)),
      (str ''valor_patrimonio'', PStr (valor_patrimonio body)),
      (str ''cliente_iletrado_impossibilitado'', PStr (cliente_iletrado_impossibilitado body)),
      (str ''tipo_conta'', PStr (tipo_conta body)),
      (str ''banco'', PStr (banco body)),
      (str ''agencia'', PStr (agencia body)),
      (str ''conta'', PStr (conta body)),
      (str ''tipo_chave_pix'', PStr (tipo_chave_pix body)),
      (str ''chave_pix'', PStr (chave_pix body)),
      (str ''matricula'', PStr (matricula body)),
      (str ''cnpj_empregador'', PStr (cnpj_empregador body)),
      (str ''data_admissao'', PStr (data_admissao body))]"

subsection \<open>Line 138: the best table\<close>

text \<open>
  \<^verbatim>\<open>sorted\<close> first makes a list of its argument: the elements of a list, the keys of a
  dict, the characters of a string; any other value is not iterable.
\<close>

definition py_iter :: "pyval \<Rightarrow> exc + pyval list" where
  "py_iter t =
     (case t of
        PList xs \<Rightarrow> Inr xs
      | PDict kvs \<Rightarrow> Inr (map (\<lambda>kv. PStr (fst kv)) kvs)
      | PStr s \<Rightarrow> Inr (map (\<lambda>c. PStr [c]) s)
      | _ \<Rightarrow> Inl TypeError)"

text \<open>The key function \<^verbatim>\<open>lambda x: float(x.get("valor_liquido",0))\<close>.\<close>

definition net_key :: "runtime \<Rightarrow> pyval \<Rightarrow> exc + pyfloat" where
  "net_key rt x = ebind (py_get x (str ''valor_liquido'') (PInt 0)) (py_float rt)"

text \<open>
  The keys are computed for every element, from the first to the last, before anything
  is compared; the first exception ends the call.
\<close>

fun keyed :: "runtime \<Rightarrow> pyval list \<Rightarrow> exc + (pyfloat \<times> pyval) list" where
  "keyed rt [] = Inr []"
| "keyed rt (x # xs) =
     (case net_key rt x of
        Inl e \<Rightarrow> Inl e
      | Inr k \<Rightarrow> (case keyed rt xs of Inl e \<Rightarrow> Inl e | Inr ks \<Rightarrow> Inr ((k, x) # ks)))"

text \<open>
  \<^verbatim>\<open>list.sort\<close> is stable and compares keys with \<^verbatim>\<open><\<close> only. Where \<^verbatim>\<open><\<close> orders the keys
  (every float but nan) there is one stable ascending arrangement, which insertion
  computes: each element, in turn, goes in front of the first element that its key is
  less than. With nan among the keys CPython's result depends on its merge strategy,
  which is not modelled.
\<close>

fun insort_lt :: "(pyfloat \<times> 'a) \<Rightarrow> (pyfloat \<times> 'a) list \<Rightarrow> (pyfloat \<times> 'a) list" where
  "insort_lt x [] = [x]"
| "insort_lt x (y # ys) =
     (if float_lt (fst x) (fst y) then x # y # ys else y # insort_lt x ys)"

definition list_sort :: "(pyfloat \<times> 'a) list \<Rightarrow> (pyfloat \<times> 'a) list" where
  "list_sort kxs = foldl (\<lambda>acc x. insort_lt x acc) [] kxs"

text \<open>
  \<^verbatim>\<open>reverse=True\<close> reverses the list, sorts it and reverses the result, which keeps
  elements of equal key in their original order.
\<close>

definition sorted_reverse :: "(pyfloat \<times> 'a) list \<Rightarrow> 'a list" where
  "sorted_reverse kxs = map snd (rev (list_sort (rev kxs)))"

text \<open>
  \<^verbatim>\<open>sorted(t, key=lambda x: float(x.get("valor_liquido",0)), reverse=True)[0]\<close>
\<close>

definition best_of :: "runtime \<Rightarrow> pyval \<Rightarrow> exc + pyval" where
  "best_of rt t =
     ebind (py_iter t) (\<lambda>xs.
     ebind (keyed rt xs) (\<lambda>kxs.
       (case sorted_reverse kxs of
          [] \<Rightarrow> Inl IndexError
        | best # _ \<Rightarrow> Inr best)))"

subsection \<open>The steps of \<^verbatim>\<open>formalizar\<close>\<close>

text \<open>The headers \<open>h\<close> of every call after the token.\<close>

definition bearer :: "runtime \<Rightarrow> pyval \<Rightarrow> (pystr \<times> pystr option) list" where
  "bearer rt token =
     [(str ''Authorization'', Some (str ''Bearer '' @ py_str rt token)),
      (str ''User-Agent'', Some (str ''helena-facta-api/1.0''))]"

text \<open>Lines 126 to 134: the query of the available operations.\<close>

definition params1 :: "pystr \<Rightarrow> FormalizarIn \<Rightarrow> pydict" where
  "params1 cpf_d body =
     [(str ''produto'', PStr (str ''D'')),
      (str ''tipo_operacao'', PStr (str ''13'')),
      (str ''averbador'', PStr (str ''10010'')),
      (str ''convenio'', PStr (str ''3'')),
      (str ''opcao_valor'', PInt (opcao_valor body)),
      (str ''valor_parcela'', PFloat (valor_parcela body)),
      (str ''prazo'', PInt (prazo body)),
      (str ''cpf'', PStr cpf_d),
      (str ''data_nascimento'', PStr (FormalizarIn.data_nascimento body)),
      (str ''valor_renda'', PFloat (FormalizarIn.renda body))]"

text \<open>Lines 126 to 138: from the call to the chosen table \<^verbatim>\<open>best\<close>.\<close>

definition operacoes_disponiveis ::
  "config \<Rightarrow> runtime \<Rightarrow> lender \<Rightarrow> (pystr \<times> pystr option) list \<Rightarrow> pystr \<Rightarrow> FormalizarIn \<Rightarrow> pyval run" where
  "operacoes_disponiveis cfg rt L h cpf_d body =
     and_then (cx_get L (FACTA_BASE cfg @ str ''/proposta/operacoes-disponiveis'')
                 (params1 cpf_d body) h) (\<lambda>r1.
     and_then (lift (r_json r1)) (\<lambda>j1.
     and_then (lift (py_get j1 (str ''tabelas'') (PList []))) (\<lambda>t.
       if \<not> truthy t then fail (HTTPException 400 SemTabela)
       else lift (best_of rt t))))"

text \<open>
  Lines 141 to 150: the form of the simulation. The values are evaluated in the order
  of the dict display, so a missing \<^verbatim>\<open>codigoTabela\<close> raises before \<^verbatim>\<open>prazo\<close> is read.
\<close>

definition fd1 :: "config \<Rightarrow> runtime \<Rightarrow> pystr \<Rightarrow> FormalizarIn \<Rightarrow> pyval \<Rightarrow> exc + pydict" where
  "fd1 cfg rt cpf_d body best =
     ebind (py_index best (str ''codigoTabela'')) (\<lambda>codigo_tabela.
     ebind (py_index best (str ''prazo'')) (\<lambda>prazo.
     ebind (py_get best (str ''valor_liquido'') (PInt 0)) (\<lambda>valor_liquido.
     ebind (py_get best (str ''contrato'') valor_liquido) (\<lambda>valor_operacao.
     ebind (py_get best (str ''parcela'') (PInt 0)) (\<lambda>parcela.
     ebind (py_get best (str ''coeficiente'') PNone) (\<lambda>coeficiente.
       Inr [(str ''produto'', PStr (str ''D'')),
            (str ''tipo_operacao'', PStr (str ''13'')),
            (str ''averbador'', PStr (str ''10010'')),
            (str ''convenio'', PStr (str ''3'')),
            (str ''cpf'', PStr cpf_d),
            (str ''data_nascimento'', PStr (FormalizarIn.data_nascimento body)),
            (str ''login_certificado'', PStr (LOGIN_CERT cfg)),
            (str ''codigo_tabela'', PStr (py_str rt codigo_tabela)),
            (str ''prazo'', PStr (py_str rt prazo)),
            (str ''valor_operacao'', PStr (py_str rt valor_operacao)),
            (str ''valor_parcela'', PStr (py_str rt parcela)),
            (str ''coeficiente'', PStr (py_str rt coeficiente))]))))))"

text \<open>Lines 141 to 155: the simulation; the value is \<^verbatim>\<open>id_sim\<close>.\<close>

definition etapa1_simulador ::
  "config \<Rightarrow> runtime \<Rightarrow> lender \<Rightarrow> (pystr \<times> pystr option) list \<Rightarrow> pystr \<Rightarrow> FormalizarIn \<Rightarrow> pyval \<Rightarrow> pyval run" where
  "etapa1_simulador cfg rt L h cpf_d body best =
     and_then (lift (fd1 cfg rt cpf_d body best)) (\<lambda>fd.
     and_then (cx_post L (FACTA_BASE cfg @ str ''/proposta/etapa1-simulador'') h fd) (\<lambda>r2.
     and_then (lift (r_json r2)) (\<lambda>j2.
     and_then (lift (py_get j2 (str ''id_simulador'') PNone)) (\<lambda>id_sim.
       if \<not> truthy id_sim then fail (HTTPException 502 (FalhaEtapa1 j2))
       else ret id_sim))))"

text \<open>
  Lines 158 and 159: \<^verbatim>\<open>fd2 = body.model_dump()\<close>, then
  \<^verbatim>\<open>fd2.update({"id_simulador": id_sim, "cpf": cpf})\<close>. An update replaces the value of
  a key where it stands and appends a new key.
\<close>

definition fd2 :: "pystr \<Rightarrow> FormalizarIn \<Rightarrow> pyval \<Rightarrow> pydict" where
  "fd2 cpf_d body id_sim =
     AList.update (str ''cpf'') (PStr cpf_d)
       (AList.update (str ''id_simulador'') id_sim (model_dump body))"

text \<open>Lines 158 to 164: the personal data; the value is \<^verbatim>\<open>codigo_cliente\<close>.\<close>

definition etapa2_dados_pessoais ::
  "config \<Rightarrow> lender \<Rightarrow> (pystr \<times> pystr option) list \<Rightarrow> pystr \<Rightarrow> FormalizarIn \<Rightarrow> pyval \<Rightarrow> pyval run" where
  "etapa2_dados_pessoais cfg L h cpf_d body id_sim =
     and_then (cx_post L (FACTA_BASE cfg @ str ''/proposta/etapa2-dados-pessoais'') h
                 (fd2 cpf_d body id_sim)) (\<lambda>r3.
     and_then (lift (r_json r3)) (\<lambda>j3.
     and_then (lift (py_get j3 (str ''codigo_cliente'') PNone)) (\<lambda>codigo_cliente.
       if \<not> truthy codigo_cliente then fail (HTTPException 502 (FalhaEtapa2 j3))
       else ret codigo_cliente)))"

text \<open>Line 167.\<close>

definition fd3 :: "pyval \<Rightarrow> pyval \<Rightarrow> pydict" where
  "fd3 codigo_cliente id_sim =
     [(str ''codigo_cliente'', codigo_cliente),
      (str ''id_simulador'', id_sim),
      (str ''tipo_formalizacao'', PStr (str ''DIG''))]"

text \<open>
  Lines 167 to 174: the proposal; the value is the pair of \<^verbatim>\<open>codigo\<close> and
  \<^verbatim>\<open>url_form\<close>.
\<close>

definition etapa3_proposta_cadastro ::
  "config \<Rightarrow> lender \<Rightarrow> (pystr \<times> pystr option) list \<Rightarrow> pyval \<Rightarrow> pyval \<Rightarrow> (pyval \<times> pyval) run" where
  "etapa3_proposta_cadastro cfg L h codigo_cliente id_sim =
     and_then (cx_post L (FACTA_BASE cfg @ str ''/proposta/etapa3-proposta-cadastro'') h
                 (fd3 codigo_cliente id_sim)) (\<lambda>r4.
     and_then (lift (r_json r4)) (\<lambda>j4.
     and_then (lift (py_get j4 (str ''codigo'') PNone)) (\<lambda>codigo.
     and_then (lift (py_get j4 (str ''url_formalizacao'') PNone)) (\<lambda>url_form.
       if \<not> truthy codigo then fail (HTTPException 502 (FalhaEtapa3 j4))
       else ret (codigo, url_form)))))"

text \<open>Line 177: the response is dropped; an exception of the call is not caught.\<close>

definition envio_link ::
  "config \<Rightarrow> lender \<Rightarrow> (pystr \<times> pystr option) list \<Rightarrow> pyval \<Rightarrow> unit run" where
  "envio_link cfg L h codigo =
     and_then (cx_post L (FACTA_BASE cfg @ str ''/proposta/envio-link'') h
                 [(str ''codigo_af'', codigo), (str ''tipo_envio'', PStr (str ''Whatsapp''))])
       (\<lambda>r5. ret ())"

text \<open>Line 179.\<close>

definition proposta_criada :: "pyval \<Rightarrow> pyval \<Rightarrow> pyval" where
  "proposta_criada codigo url_form =
     PDict [(str ''status'', PStr (str ''ok'')),
            (str ''mensagem'', PStr (str ''Proposta criada e link enviado.'')),
            (str ''codigo'', codigo),
            (str ''url_formalizacao'', url_form)]"

definition formalizar :: "config \<Rightarrow> runtime \<Rightarrow> lender \<Rightarrow> FormalizarIn \<Rightarrow> pyval run" where
  "formalizar cfg rt L body =
     and_then (get_token cfg rt L) (\<lambda>token.
       let h = bearer rt token;
           cpf_d = digits rt (Some (FormalizarIn.cpf body))
       in and_then (operacoes_disponiveis cfg rt L h cpf_d body) (\<lambda>best.
          and_then (etapa1_simulador cfg rt L h cpf_d body best) (\<lambda>id_sim.
          and_then (etapa2_dados_pessoais cfg L h cpf_d body id_sim) (\<lambda>codigo_cliente.
          and_then (etapa3_proposta_cadastro cfg L h codigo_cliente id_sim) (\<lambda>(codigo, url_form).
          and_then (envio_link cfg L h codigo) (\<lambda>_.
            ret (proposta_criada codigo url_form)))))))"

section \<open>The requests of the two operations\<close>

text \<open>
  Each call of \<^verbatim>\<open>cx.get\<close> and \<^verbatim>\<open>cx.post\<close> in the source, as the request it sends; \<open>h\<close>
  is the header list of the operation.
\<close>

definition gera_token :: "config \<Rightarrow> request" where
  "gera_token cfg =
     \<lparr>meth = GET, url = FACTA_BASE cfg @ str ''/gera-token'',
      headers = [(str ''Authorization'', BASIC_AUTH cfg),
                 (str ''Accept'', Some (str ''application/json'')),
                 (str ''User-Agent'', Some (str ''helena-facta-api/1.0''))],
      payload = []\<rparr>"

definition consulta_request :: "config \<Rightarrow> runtime \<Rightarrow> pyval \<Rightarrow> pystr \<Rightarrow> request" where
  "consulta_request cfg rt token c =
     \<lparr>meth = GET, url = FACTA_BASE cfg @ str ''/consignado-trabalhador/consulta-ofertas'',
      headers = [(str ''Authorization'', Some (str ''Bearer '' @ py_str rt token)),
                 (str ''Accept'', Some (str ''application/json'')),
                 (str ''User-Agent'', Some (str ''helena-facta-api/1.0''))],
      payload = [(str ''cpf'', PStr c)]\<rparr>"

definition operacoes_request ::
  "config \<Rightarrow> (pystr \<times> pystr option) list \<Rightarrow> pystr \<Rightarrow> FormalizarIn \<Rightarrow> request" where
  "operacoes_request cfg h c body =
     \<lparr>meth = GET, url = FACTA_BASE cfg @ str ''/proposta/operacoes-disponiveis'',
      headers = h, payload = params1 c body\<rparr>"

definition simulador_request :: "config \<Rightarrow> (pystr \<times> pystr option) list \<Rightarrow> pydict \<Rightarrow> request" where
  "simulador_request cfg h fd =
     \<lparr>meth = POST, url = FACTA_BASE cfg @ str ''/proposta/etapa1-simulador'',
      headers = h, payload = fd\<rparr>"

definition dados_request ::
  "config \<Rightarrow> (pystr \<times> pystr option) list \<Rightarrow> pystr \<Rightarrow> FormalizarIn \<Rightarrow> pyval \<Rightarrow> request" where
  "dados_request cfg h c body id_sim =
     \<lparr>meth = POST, url = FACTA_BASE cfg @ str ''/proposta/etapa2-dados-pessoais'',
      headers = h, payload = fd2 c body id_sim\<rparr>"

definition proposta_request ::
  "config \<Rightarrow> (pystr \<times> pystr option) list \<Rightarrow> pyval \<Rightarrow> pyval \<Rightarrow> request" where
  "proposta_request cfg h codigo_cliente id_sim =
     \<lparr>meth = POST, url = FACTA_BASE cfg @ str ''/proposta/etapa3-proposta-cadastro'',
      headers = h, payload = fd3 codigo_cliente id_sim\<rparr>"

definition envio_request :: "config \<Rightarrow> (pystr \<times> pystr option) list \<Rightarrow> pyval \<Rightarrow> request" where
  "envio_request cfg h codigo =
     \<lparr>meth = POST, url = FACTA_BASE cfg @ str ''/proposta/envio-link'',
      headers = h,
      payload = [(str ''codigo_af'', codigo), (str ''tipo_envio'', PStr (str ''Whatsapp''))]\<rparr>"

section \<open>Requests sent by a run\<close>

text \<open>Every request that a run has sent satisfies \<open>P\<close>.\<close>

definition all_sent :: "(request \<Rightarrow> bool) \<Rightarrow> 'a run \<Rightarrow> bool" where
  "all_sent P m = (\<forall>rq \<in> set (fst m). P rq)"

text \<open>A request that carries a \<^verbatim>\<open>cpf\<close> carries the string \<open>c\<close>.\<close>

definition cpf_is :: "pystr \<Rightarrow> request \<Rightarrow> bool" where
  "cpf_is c rq = (\<forall>v. map_of (payload rq) (str ''cpf'') = Some v \<longrightarrow> v = PStr c)"

section \<open>Example runs\<close>

text \<open>
  The examples run against a lender that answers by address. They use an interpreter
  cut down to what they need: the ASCII digits, the conversion of a string of at most
  fifteen ASCII digits to a float, and no text for floats and containers. On the
  inputs of the examples it agrees with CPython.
\<close>

definition ascii_runtime :: runtime where
  "ascii_runtime =
     \<lparr>isdecimal = (\<lambda>c. 48 \<le> c \<and> c \<le> 57),
      float_of_str = (\<lambda>s. if s \<noteq> [] \<and> length s \<le> 15 \<and> list_all (\<lambda>c. 48 \<le> c \<and> c \<le> 57) s
                            then Some (Finite (of_nat (foldl (\<lambda>a c. 10 * a + (c - 48)) 0 s)))
                            else None),
      float_of_big = (\<lambda>i. None),
      repr = (\<lambda>v. [])\<rparr>"

definition example_config :: config where
  "example_config =
     \<lparr>FACTA_BASE = str ''https://webservice-homol.facta.com.br'',
      BASIC_AUTH = Some (str ''Basic dXN1YXJpbzpzZW5oYQ==''),
      LOGIN_CERT = str ''96676'',
      TIMEOUT = 45\<rparr>"

text \<open>A lender that answers the listed paths and is unreachable on every other.\<close>

definition scripted :: "(string \<times> response) list \<Rightarrow> lender" where
  "scripted answers rq =
     (case map_of (map (\<lambda>pr. (FACTA_BASE example_config @ str (fst pr), snd pr)) answers) (url rq) of
        None \<Rightarrow> Inl TransportError
      | Some r \<Rightarrow> Inr r)"

text \<open>A response of status 200 with a JSON body; its text is not read on these paths.\<close>

definition json_response :: "pyval \<Rightarrow> response" where
  "json_response j =
     \<lparr>status_code = 200, content_type = Some (str ''application/json''),
      r_text = [], json_body = Some j\<rparr>"

text \<open>The page of a network-edge defence: HTML, which is not JSON.\<close>

definition html_response :: response where
  "html_response =
     \<lparr>status_code = 403, content_type = Some (str ''text/html; charset=UTF-8''),
      r_text = str ''<html>Access denied</html>'', json_body = None\<rparr>"

definition token_abc :: response where
  "token_abc = json_response (PDict [(str ''token'', PStr (str ''abc''))])"

definition example_consulta :: ConsultaIn where
  "example_consulta =
     \<lparr>ConsultaIn.nome = str ''Maria Silva'', ConsultaIn.cpf = str ''123.456.789-09'',
      ConsultaIn.data_nascimento = str ''01/02/1980'', meses_vinculo = None,
      ConsultaIn.renda = None,
      canal = Some (str ''chatbot''), origem = Some (str ''helena''),
      id_contato = None, telefone = None\<rparr>"

definition example_body :: FormalizarIn where
  "example_body =
     \<lparr>cpf = str ''123.456.789-09'', data_nascimento = str ''01/02/1980'',
      renda = Finite 3000, sexo = str ''F'', opcao_valor = 1, valor_parcela = Finite 200,
      prazo = 84, nome = str ''Maria Silva'', estado_civil = str ''S'', rg = str ''1234567'',
      estado_rg = str ''RS'', orgao_emissor = str ''SSP'', data_expedicao = str ''01/01/2000'',
      estado_natural = str ''RS'', cidade_natural = str ''Porto Alegre'',
      nacionalidade = str ''1'', celular = str ''51999990000'', cep = str ''90000000'',
      endereco = str ''Rua A'', numero = str ''10'', bairro = str ''Centro'',
      estado = str ''RS'', cidade = str ''Porto Alegre'', nome_mae = str ''Ana Silva'',
      nome_pai = str ''Jose Silva'', valor_patrimonio = str ''1'',
      cliente_iletrado_impossibilitado = str ''N'', tipo_conta = str ''C'',
      banco = str ''001'', agencia = str ''1234'', conta = str ''56789'',
      tipo_chave_pix = str ''1'', chave_pix = str ''12345678909'',
      matricula = str ''M1'', cnpj_empregador = str ''12345678000199'',
      data_admissao = str ''01/01/2020''\<rparr>"

text \<open>Three tables: net values 1000, 1500 and 1500 again.\<close>

definition table_a :: pyval where
  "table_a = PDict [(str ''codigoTabela'', PStr (str ''A'')), (str ''prazo'', PInt 84),
                    (str ''valor_liquido'', PInt 1000)]"

definition table_b :: pyval where
  "table_b = PDict [(str ''codigoTabela'', PStr (str ''B'')), (str ''prazo'', PInt 84),
                    (str ''valor_liquido'', PInt 1500), (str ''contrato'', PStr (str ''1800.00'')),
                    (str ''parcela'', PStr (str ''200.00'')), (str ''coeficiente'', PStr (str ''0.05''))]"

definition table_c :: pyval where
  "table_c = PDict [(str ''codigoTabela'', PStr (str ''C'')), (str ''prazo'', PInt 96),
                    (str ''valor_liquido'', PInt 1500)]"

definition tabelas_abc :: response where
  "tabelas_abc = json_response (PDict [(str ''tabelas'', PList [table_a, table_b, table_c])])"

definition simulador_ok :: response where
  "simulador_ok = json_response (PDict [(str ''id_simulador'', PStr (str ''sim-1''))])"

definition cliente_ok :: response where
  "cliente_ok = json_response (PDict [(str ''codigo_cliente'', PStr (str ''cli-1''))])"

definition proposta_ok :: response where
  "proposta_ok = json_response (PDict [(str ''codigo'', PStr (str ''AF-1'')),
                                         (str ''url_formalizacao'', PStr (str ''https://f/AF-1''))])"

text \<open>Two tables, the better of which has no \<^verbatim>\<open>codigoTabela\<close>.\<close>

definition table_uncoded :: pyval where
  "table_uncoded = PDict [(str ''prazo'', PInt 84), (str ''valor_liquido'', PInt 2000)]"

definition tabelas_uncoded :: response where
  "tabelas_uncoded = json_response (PDict [(str ''tabelas'', PList [table_a, table_uncoded])])"

text \<open>A single table with nothing but its code, its term and its net value.\<close>

definition tabelas_c :: response where
  "tabelas_c = json_response (PDict [(str ''tabelas'', PList [table_c])])"

text \<open>The register step answers with an error message and no \<^verbatim>\<open>codigo_cliente\<close>.\<close>

definition cliente_recusado :: pyval where
  "cliente_recusado = PDict [(str ''erro'', PBool True), (str ''mensagem'', PStr (str ''CPF invalido''))]"




text \<open>An answer of status 200 that is neither HTML nor JSON.\<close>

definition plain_response :: response where
  "plain_response =
     \<lparr>status_code = 200, content_type = Some (str ''text/plain''),
      r_text = str ''OK'', json_body = None\<rparr>"

text \<open>An answer of status 503 with a JSON body.\<close>

definition unavailable_response :: response where
  "unavailable_response =
     \<lparr>status_code = 503, content_type = Some (str ''application/json''),
      r_text = str ''Service Unavailable'', json_body = None\<rparr>"

text \<open>One offer, under the second pair of names.\<close>

definition ofertas_refin :: response where
  "ofertas_refin =
     json_response (PDict [(str ''dados'',
       PList [PDict [(str ''descricao'', PStr (str ''Refin'')),
                     (str ''situacao'', PStr (str ''Aprovado''))]])])"

text \<open>A complete formalization, but for the last step, which each example supplies.\<close>

definition until_proposal :: "(string \<times> response) list" where
  "until_proposal =
     [(''/gera-token'', token_abc),
      (''/proposta/operacoes-disponiveis'', tabelas_abc),
      (''/proposta/etapa1-simulador'', simulador_ok),
      (''/proposta/etapa2-dados-pessoais'', cliente_ok),
      (''/proposta/etapa3-proposta-cadastro'', proposta_ok)]"

section \<open>Basic facts\<close>

subsection \<open>Strings\<close>

lemma str_eq_iff [simp]: "str a = str b \<longleftrightarrow> a = b"
  by (simp add: str_def inj_map_eq_map [OF inj_of_char])

lemma str_Nil [simp]: "str [] = []"
  by (simp add: str_def)

lemma str_is_Nil [simp]: "str s = [] \<longleftrightarrow> s = []" "[] = str s \<longleftrightarrow> s = []"
  by (auto simp: str_def)

lemma str_append [simp]: "str a @ str b = str (a @ b)"
  by (simp add: str_def)

lemma length_str [simp]: "length (str s) = length s"
  by (simp add: str_def)

lemma take_str [simp]: "take n (str s) = str (take n s)"
  by (simp add: str_def take_map)

lemma base_append_eq [simp]: "(b::pystr) @ str p = b @ str q \<longleftrightarrow> p = q"
  by simp

subsection \<open>Runs\<close>

lemma and_then_Inl [simp]: "and_then (tr, Inl e) f = (tr, Inl e)"
  by (simp add: and_then_def)

lemma and_then_Inr [simp]: "and_then (tr, Inr a) f = (tr @ fst (f a), snd (f a))"
  by (simp add: and_then_def split: prod.splits)

lemma lift_simps [simp]: "lift (Inl x) = ([], Inl (Unhandled x))" "lift (Inr a) = ([], Inr a)"
  by (simp_all add: lift_def)

lemma ebind_simps [simp]: "ebind (Inl e) f = Inl e" "ebind (Inr a) f = f a"
  by (simp_all add: ebind_def)

lemma fail_simps [simp]: "fst (fail e) = []" "snd (fail e) = Inl e"
  by (simp_all add: fail_def)

lemma ret_simps [simp]: "fst (ret a) = []" "snd (ret a) = Inr a"
  by (simp_all add: ret_def)

lemma fst_lift [simp]: "fst (lift x) = []"
  by (cases x) simp_all

lemma send_simps [simp]:
  "L rq = Inr r \<Longrightarrow> send L rq = ([rq], Inr r)"
  "L rq = Inl x \<Longrightarrow> send L rq = ([rq], Inl (Unhandled x))"
  by (simp_all add: send_def)

lemma fst_send [simp]: "fst (send L rq) = [rq]"
  by (simp add: send_def)

lemma snd_and_then_Inr:
  "snd (and_then m f) = Inr b \<Longrightarrow> \<exists>a. snd m = Inr a \<and> snd (f a) = Inr b"
  by (cases m; cases "snd m") auto

lemma py_get_dict [simp]:
  "py_get (PDict d) k v = Inr (case map_of d k of None \<Rightarrow> v | Some w \<Rightarrow> w)"
  by (simp add: py_get_def)

lemma r_json_simps [simp]:
  "json_body r = Some j \<Longrightarrow> r_json r = Inr j"
  "json_body r = None \<Longrightarrow> r_json r = Inl JSONDecodeError"
  by (simp_all add: r_json_def)

subsection \<open>Each step, by the request it sends\<close>

lemma get_token_send:
  "get_token cfg rt L =
     and_then (send L (gera_token cfg)) (\<lambda>r.
       if is_html r then fail (HTTPException 502 TokenHtml)
       else if status_code r \<noteq> 200 then fail (HTTPException 502 (TokenError (r_text r)))
       else and_then (lift (r_json r)) (\<lambda>j.
            and_then (lift (py_get j (str ''token'') PNone)) (\<lambda>token.
              if \<not> truthy token then fail (HTTPException 502 (TokenVazio j))
              else ret token)))"
  by (simp add: get_token_def gera_token_def cx_get_def)

lemma operacoes_send:
  "operacoes_disponiveis cfg rt L h c body =
     and_then (send L (operacoes_request cfg h c body)) (\<lambda>r1.
     and_then (lift (r_json r1)) (\<lambda>j1.
     and_then (lift (py_get j1 (str ''tabelas'') (PList []))) (\<lambda>t.
       if \<not> truthy t then fail (HTTPException 400 SemTabela)
       else lift (best_of rt t))))"
  by (simp add: operacoes_disponiveis_def operacoes_request_def cx_get_def)

lemma etapa1_send:
  "etapa1_simulador cfg rt L h c body best =
     and_then (lift (fd1 cfg rt c body best)) (\<lambda>fd.
     and_then (send L (simulador_request cfg h fd)) (\<lambda>r2.
     and_then (lift (r_json r2)) (\<lambda>j2.
     and_then (lift (py_get j2 (str ''id_simulador'') PNone)) (\<lambda>id_sim.
       if \<not> truthy id_sim then fail (HTTPException 502 (FalhaEtapa1 j2))
       else ret id_sim))))"
  by (simp add: etapa1_simulador_def simulador_request_def cx_post_def)

lemma etapa2_send:
  "etapa2_dados_pessoais cfg L h c body id_sim =
     and_then (send L (dados_request cfg h c body id_sim)) (\<lambda>r3.
     and_then (lift (r_json r3)) (\<lambda>j3.
     and_then (lift (py_get j3 (str ''codigo_cliente'') PNone)) (\<lambda>codigo_cliente.
       if \<not> truthy codigo_cliente then fail (HTTPException 502 (FalhaEtapa2 j3))
       else ret codigo_cliente)))"
  by (simp add: etapa2_dados_pessoais_def dados_request_def cx_post_def)

lemma etapa3_send:
  "etapa3_proposta_cadastro cfg L h cc id_sim =
     and_then (send L (proposta_request cfg h cc id_sim)) (\<lambda>r4.
     and_then (lift (r_json r4)) (\<lambda>j4.
     and_then (lift (py_get j4 (str ''codigo'') PNone)) (\<lambda>codigo.
     and_then (lift (py_get j4 (str ''url_formalizacao'') PNone)) (\<lambda>url_form.
       if \<not> truthy codigo then fail (HTTPException 502 (FalhaEtapa3 j4))
       else ret (codigo, url_form)))))"
  by (simp add: etapa3_proposta_cadastro_def proposta_request_def cx_post_def)

lemma envio_send:
  "envio_link cfg L h codigo = and_then (send L (envio_request cfg h codigo)) (\<lambda>r5. ret ())"
  by (simp add: envio_link_def envio_request_def cx_post_def)

lemma consulta_send:
  "consulta_ofertas cfg rt L body =
     and_then (get_token cfg rt L) (\<lambda>token.
     and_then (send L (consulta_request cfg rt token (digits rt (Some (ConsultaIn.cpf body))))) (\<lambda>r.
       if is_html r then fail (HTTPException 502 ConsultaHtml)
       else (case r_json r of
               Inl x \<Rightarrow> fail (HTTPException 502 (ConsultaError (r_text r)))
             | Inr j \<Rightarrow>
                 and_then (lift (ofertas_of j)) (\<lambda>ofertas.
                   ret (PDict [(str ''status'', PStr (str ''ok'')),
                               (str ''cpf'', PStr (digits rt (Some (ConsultaIn.cpf body)))),
                               (str ''total_ofertas'', PInt (int (length ofertas))),
                               (str ''ofertas'', PList ofertas)])))))"
  by (simp add: consulta_ofertas_def consulta_request_def cx_get_def Let_def)

subsection \<open>What a run has sent\<close>

lemma all_sent_and_then:
  "all_sent P m \<Longrightarrow> (\<And>a. all_sent P (f a)) \<Longrightarrow> all_sent P (and_then m f)"
  by (cases m; cases "snd m") (auto simp: all_sent_def)

lemma all_sent_nil [simp]: "all_sent P (fail e)" "all_sent P (ret a)" "all_sent P (lift x)"
  by (auto simp: all_sent_def)

lemma all_sent_send: "P rq \<Longrightarrow> all_sent P (send L rq)"
  by (simp add: all_sent_def)

lemma all_sent_get_token: "P (gera_token cfg) \<Longrightarrow> all_sent P (get_token cfg rt L)"
  unfolding get_token_send by (auto intro!: all_sent_and_then all_sent_send)

lemma all_sent_operacoes:
  "P (operacoes_request cfg h c body) \<Longrightarrow> all_sent P (operacoes_disponiveis cfg rt L h c body)"
  unfolding operacoes_send by (auto intro!: all_sent_and_then all_sent_send)

lemma all_sent_etapa1:
  "(\<And>fd. fd1 cfg rt c body best = Inr fd \<Longrightarrow> P (simulador_request cfg h fd)) \<Longrightarrow>
   all_sent P (etapa1_simulador cfg rt L h c body best)"
proof (cases "fd1 cfg rt c body best")
  case (Inl e)
  then show ?thesis by (simp add: etapa1_send all_sent_def)
next
  case (Inr fd)
  assume "\<And>fd. fd1 cfg rt c body best = Inr fd \<Longrightarrow> P (simulador_request cfg h fd)"
  with Inr have "P (simulador_request cfg h fd)" by blast
  with Inr show ?thesis
    unfolding etapa1_send by (auto intro!: all_sent_and_then all_sent_send)
qed

lemma all_sent_etapa2:
  "P (dados_request cfg h c body id_sim) \<Longrightarrow> all_sent P (etapa2_dados_pessoais cfg L h c body id_sim)"
  unfolding etapa2_send by (auto intro!: all_sent_and_then all_sent_send)

lemma all_sent_etapa3:
  "P (proposta_request cfg h cc id_sim) \<Longrightarrow> all_sent P (etapa3_proposta_cadastro cfg L h cc id_sim)"
  unfolding etapa3_send by (auto intro!: all_sent_and_then all_sent_send)

lemma all_sent_envio:
  "P (envio_request cfg h codigo) \<Longrightarrow> all_sent P (envio_link cfg L h codigo)"
  unfolding envio_send by (auto intro!: all_sent_and_then all_sent_send)

lemma fst_and_then:
  "fst (and_then m f) = fst m @ (case snd m of Inl e \<Rightarrow> [] | Inr a \<Rightarrow> fst (f a))"
  by (cases m; cases "snd m") auto

lemma in_fst_and_then: "rq \<in> set (fst m) \<Longrightarrow> rq \<in> set (fst (and_then m f))"
  by (simp add: fst_and_then)

lemma fst_get_token: "fst (get_token cfg rt L) = [gera_token cfg]"
  unfolding get_token_send by (simp add: fst_and_then split: sum.splits)

lemma fst_operacoes:
  "fst (operacoes_disponiveis cfg rt L h c body) = [operacoes_request cfg h c body]"
  unfolding operacoes_send by (simp add: fst_and_then split: sum.splits)

lemma fst_etapa1:
  "fst (etapa1_simulador cfg rt L h c body best) =
     (case fd1 cfg rt c body best of Inl e \<Rightarrow> [] | Inr fd \<Rightarrow> [simulador_request cfg h fd])"
  unfolding etapa1_send by (simp add: fst_and_then split: sum.splits)

lemma fst_etapa2:
  "fst (etapa2_dados_pessoais cfg L h c body id_sim) = [dados_request cfg h c body id_sim]"
  unfolding etapa2_send by (simp add: fst_and_then split: sum.splits)

lemma fst_etapa3:
  "fst (etapa3_proposta_cadastro cfg L h cc id_sim) = [proposta_request cfg h cc id_sim]"
  unfolding etapa3_send by (simp add: fst_and_then split: sum.splits)

lemma fst_envio: "fst (envio_link cfg L h codigo) = [envio_request cfg h codigo]"
  unfolding envio_send by (simp add: fst_and_then split: sum.splits)

lemma all_sent_formalizar:
  assumes "P (gera_token cfg)"
    and "\<And>h. P (operacoes_request cfg h (digits rt (Some (FormalizarIn.cpf body))) body)"
    and "\<And>h best fd. fd1 cfg rt (digits rt (Some (FormalizarIn.cpf body))) body best = Inr fd
           \<Longrightarrow> P (simulador_request cfg h fd)"
    and "\<And>h id_sim. P (dados_request cfg h (digits rt (Some (FormalizarIn.cpf body))) body id_sim)"
    and "\<And>h cc id_sim. P (proposta_request cfg h cc id_sim)"
    and "\<And>h codigo. P (envio_request cfg h codigo)"
  shows "all_sent P (formalizar cfg rt L body)"
  unfolding formalizar_def Let_def
  by (auto intro!: all_sent_and_then all_sent_get_token all_sent_operacoes all_sent_etapa1
        all_sent_etapa2 all_sent_etapa3 all_sent_envio assms)

lemma all_sent_consulta:
  assumes "P (gera_token cfg)"
    and "\<And>token. P (consulta_request cfg rt token (digits rt (Some (ConsultaIn.cpf body))))"
  shows "all_sent P (consulta_ofertas cfg rt L body)"
  unfolding consulta_send
  by (auto intro!: all_sent_and_then all_sent_get_token all_sent_send assms split: sum.splits)

section \<open>The canonical id number\<close>

lemma re_sub_nondigit_filter: "re_sub_nondigit rt s = filter (isdecimal rt) s"
  by (induction s) auto

lemma digits_filter: "digits rt (Some s) = filter (isdecimal rt) s"
  by (simp add: digits_def re_sub_nondigit_filter)

lemma fd1_cpf: "fd1 cfg rt c body best = Inr fd \<Longrightarrow> map_of fd (str ''cpf'') = Some (PStr c)"
  by (auto simp: fd1_def ebind_def split: sum.splits)

lemma cpf_formalizar:
  "all_sent (cpf_is (digits rt (Some (FormalizarIn.cpf body)))) (formalizar cfg rt L body)"
  by (rule all_sent_formalizar)
     (simp_all add: cpf_is_def gera_token_def operacoes_request_def params1_def
        simulador_request_def fd1_cpf dados_request_def fd2_def update_conv'
        proposta_request_def fd3_def envio_request_def)

lemma cpf_consulta:
  "all_sent (cpf_is (digits rt (Some (ConsultaIn.cpf body)))) (consulta_ofertas cfg rt L body)"
  by (rule all_sent_consulta) (simp_all add: cpf_is_def gera_token_def consulta_request_def)

lemma consulta_echo:
  "snd (consulta_ofertas cfg rt L body) = Inr out \<Longrightarrow>
   py_get out (str ''cpf'') PNone = Inr (PStr (digits rt (Some (ConsultaIn.cpf body))))"
  unfolding consulta_send
  by (auto dest!: snd_and_then_Inr split: if_splits sum.splits)

lemma consulta_trace:
  assumes "get_token cfg rt L = (tr, Inr token)"
  shows "fst (consulta_ofertas cfg rt L body)
           = [gera_token cfg, consulta_request cfg rt token (digits rt (Some (ConsultaIn.cpf body)))]"
proof -
  have tr: "tr = [gera_token cfg]" using fst_get_token [of cfg rt L] assms by simp
  show ?thesis
    unfolding consulta_send by (simp add: assms tr fst_and_then split: sum.splits)
qed

lemma consulta_answer:
  assumes "get_token cfg rt L = (tr, Inr token)"
    and "L (consulta_request cfg rt token (digits rt (Some (ConsultaIn.cpf body)))) = Inr r"
    and "\<not> is_html r" and "json_body r = Some j" and "ofertas_of j = Inr os"
  shows "snd (consulta_ofertas cfg rt L body)
           = Inr (PDict [(str ''status'', PStr (str ''ok'')),
                         (str ''cpf'', PStr (digits rt (Some (ConsultaIn.cpf body)))),
                         (str ''total_ofertas'', PInt (int (length os))),
                         (str ''ofertas'', PList os)])"
  unfolding consulta_send using assms by (simp add: ret_def)

lemma formalizar_trace:
  assumes "get_token cfg rt L = (tr, Inr token)"
  shows "\<exists>rest. fst (formalizar cfg rt L body)
           = gera_token cfg
             # operacoes_request cfg (bearer rt token) (digits rt (Some (FormalizarIn.cpf body))) body
             # rest"
proof -
  have tr: "tr = [gera_token cfg]" using fst_get_token [of cfg rt L] assms by simp
  show ?thesis
    unfolding formalizar_def Let_def by (simp add: assms tr fst_and_then fst_operacoes)
qed

text \<open>
  C9. The id number is canonicalised to its decimal digits, in their order: \<^verbatim>\<open>digits\<close>
  keeps exactly the characters of the class that \<^verbatim>\<open>\d\<close> matches. In the offer query
  and in the formalization every request that carries a \<^verbatim>\<open>cpf\<close> carries that string,
  and the answer of the offer query echoes it. Once the token is obtained, the offer
  query does send the lookup request, whose only parameter is that string, and it
  answers with that string whenever the lookup is answered with a JSON body whose
  offers can be read; the formalization does send the query of available operations,
  whose \<^verbatim>\<open>cpf\<close> parameter is that string.
\<close>

theorem cpf_is_digit_subsequence:
  "digits rt (Some s) = filter (isdecimal rt) s
   \<and> (\<forall>rq \<in> set (fst (consulta_ofertas cfg rt L q)). \<forall>v.
         map_of (payload rq) (str ''cpf'') = Some v
           \<longrightarrow> v = PStr (filter (isdecimal rt) (ConsultaIn.cpf q)))
   \<and> (\<forall>out. snd (consulta_ofertas cfg rt L q) = Inr out
           \<longrightarrow> py_get out (str ''cpf'') PNone = Inr (PStr (filter (isdecimal rt) (ConsultaIn.cpf q))))
   \<and> (\<forall>rq \<in> set (fst (formalizar cfg rt L b)). \<forall>v.
         map_of (payload rq) (str ''cpf'') = Some v
           \<longrightarrow> v = PStr (filter (isdecimal rt) (FormalizarIn.cpf b)))
   \<and> (\<forall>tr token. get_token cfg rt L = (tr, Inr token)
         \<longrightarrow> fst (consulta_ofertas cfg rt L q)
               = [gera_token cfg,
                  consulta_request cfg rt token (filter (isdecimal rt) (ConsultaIn.cpf q))]
             \<and> payload (consulta_request cfg rt token (filter (isdecimal rt) (ConsultaIn.cpf q)))
               = [(str ''cpf'', PStr (filter (isdecimal rt) (ConsultaIn.cpf q)))])
   \<and> (\<forall>tr token r j os.
         get_token cfg rt L = (tr, Inr token)
         \<and> L (consulta_request cfg rt token (filter (isdecimal rt) (ConsultaIn.cpf q))) = Inr r
         \<and> \<not> is_html r \<and> json_body r = Some j \<and> ofertas_of j = Inr os
         \<longrightarrow> snd (consulta_ofertas cfg rt L q)
               = Inr (PDict [(str ''status'', PStr (str ''ok'')),
                             (str ''cpf'', PStr (filter (isdecimal rt) (ConsultaIn.cpf q))),
                             (str ''total_ofertas'', PInt (int (length os))),
                             (str ''ofertas'', PList os)]))
   \<and> (\<forall>tr token. get_token cfg rt L = (tr, Inr token)
         \<longrightarrow> (\<exists>rest. fst (formalizar cfg rt L b)
                 = gera_token cfg
                   # operacoes_request cfg (bearer rt token)
                       (filter (isdecimal rt) (FormalizarIn.cpf b)) b
                   # rest)
             \<and> map_of (payload (operacoes_request cfg (bearer rt token)
                                  (filter (isdecimal rt) (FormalizarIn.cpf b)) b)) (str ''cpf'')
               = Some (PStr (filter (isdecimal rt) (FormalizarIn.cpf b))))"
proof (intro conjI)
  show "digits rt (Some s) = filter (isdecimal rt) s"
    by (rule digits_filter)
  show "\<forall>rq \<in> set (fst (consulta_ofertas cfg rt L q)). \<forall>v.
         map_of (payload rq) (str ''cpf'') = Some v
           \<longrightarrow> v = PStr (filter (isdecimal rt) (ConsultaIn.cpf q))"
    using cpf_consulta [of rt q cfg L] by (simp add: all_sent_def cpf_is_def digits_filter)
  show "\<forall>out. snd (consulta_ofertas cfg rt L q) = Inr out
           \<longrightarrow> py_get out (str ''cpf'') PNone = Inr (PStr (filter (isdecimal rt) (ConsultaIn.cpf q)))"
    using consulta_echo [of cfg rt L q] by (simp add: digits_filter)
  show "\<forall>rq \<in> set (fst (formalizar cfg rt L b)). \<forall>v.
         map_of (payload rq) (str ''cpf'') = Some v
           \<longrightarrow> v = PStr (filter (isdecimal rt) (FormalizarIn.cpf b))"
    using cpf_formalizar [of rt b cfg L] by (simp add: all_sent_def cpf_is_def digits_filter)
  show "\<forall>tr token. get_token cfg rt L = (tr, Inr token)
         \<longrightarrow> fst (consulta_ofertas cfg rt L q)
               = [gera_token cfg,
                  consulta_request cfg rt token (filter (isdecimal rt) (ConsultaIn.cpf q))]
             \<and> payload (consulta_request cfg rt token (filter (isdecimal rt) (ConsultaIn.cpf q)))
               = [(str ''cpf'', PStr (filter (isdecimal rt) (ConsultaIn.cpf q)))]"
    using consulta_trace [of cfg rt L _ _ q]
    by (simp add: digits_filter consulta_request_def)
  show "\<forall>tr token r j os.
         get_token cfg rt L = (tr, Inr token)
         \<and> L (consulta_request cfg rt token (filter (isdecimal rt) (ConsultaIn.cpf q))) = Inr r
         \<and> \<not> is_html r \<and> json_body r = Some j \<and> ofertas_of j = Inr os
         \<longrightarrow> snd (consulta_ofertas cfg rt L q)
               = Inr (PDict [(str ''status'', PStr (str ''ok'')),
                             (str ''cpf'', PStr (filter (isdecimal rt) (ConsultaIn.cpf q))),
                             (str ''total_ofertas'', PInt (int (length os))),
                             (str ''ofertas'', PList os)])"
    using consulta_answer [of cfg rt L _ _ q]
    by (simp add: digits_filter)
  show "\<forall>tr token. get_token cfg rt L = (tr, Inr token)
         \<longrightarrow> (\<exists>rest. fst (formalizar cfg rt L b)
                 = gera_token cfg
                   # operacoes_request cfg (bearer rt token)
                       (filter (isdecimal rt) (FormalizarIn.cpf b)) b
                   # rest)
             \<and> map_of (payload (operacoes_request cfg (bearer rt token)
                                  (filter (isdecimal rt) (FormalizarIn.cpf b)) b)) (str ''cpf'')
               = Some (PStr (filter (isdecimal rt) (FormalizarIn.cpf b)))"
    using formalizar_trace [of cfg rt L _ _ b]
    by (simp add: digits_filter operacoes_request_def params1_def)
qed

section \<open>Example runs, evaluated\<close>

lemma scripted_Cons [simp]:
  "scripted (pr # rest) rq =
     (if url rq = FACTA_BASE example_config @ str (fst pr) then Inr (snd pr) else scripted rest rq)"
  by (simp add: scripted_def)

lemma scripted_Nil [simp]: "scripted [] rq = Inl TransportError"
  by (simp add: scripted_def)

lemma example_base [simp]:
  "FACTA_BASE example_config = str ''https://webservice-homol.facta.com.br''"
  by (simp add: example_config_def)

lemma url_simps [simp]:
  "url (gera_token cfg) = FACTA_BASE cfg @ str ''/gera-token''"
  "url (consulta_request cfg rt token c) = FACTA_BASE cfg @ str ''/consignado-trabalhador/consulta-ofertas''"
  "url (operacoes_request cfg h c body) = FACTA_BASE cfg @ str ''/proposta/operacoes-disponiveis''"
  "url (simulador_request cfg h fd) = FACTA_BASE cfg @ str ''/proposta/etapa1-simulador''"
  "url (dados_request cfg h c body id_sim) = FACTA_BASE cfg @ str ''/proposta/etapa2-dados-pessoais''"
  "url (proposta_request cfg h cc id_sim) = FACTA_BASE cfg @ str ''/proposta/etapa3-proposta-cadastro''"
  "url (envio_request cfg h codigo) = FACTA_BASE cfg @ str ''/proposta/envio-link''"
  by (simp_all add: gera_token_def consulta_request_def operacoes_request_def
        simulador_request_def dados_request_def proposta_request_def envio_request_def)

lemma json_response_simps [simp]:
  "status_code (json_response j) = 200"
  "json_body (json_response j) = Some j"
  "\<not> is_html (json_response j)"
  by (simp_all add: json_response_def is_html_def startswith_def)

lemma html_response_simps [simp]:
  "is_html html_response"
  "json_body html_response = None"
  by (simp_all add: html_response_def is_html_def startswith_def)

lemma example_digits [simp]:
  "digits ascii_runtime (Some (str ''123.456.789-09'')) = str ''12345678909''"
  by (simp add: digits_filter ascii_runtime_def str_def)

lemma example_ofertas_refin:
  "ofertas_of (PDict [(str ''dados'',
       PList [PDict [(str ''descricao'', PStr (str ''Refin'')),
                     (str ''situacao'', PStr (str ''Aprovado''))]])])
     = Inr [PDict [(str ''oferta'', PStr (str ''Refin'')),
                   (str ''resposta'', PStr (str ''Aprovado''))]]"
  by (simp add: ofertas_of_def ofertas_raw_def oferta_entry_def py_or_def)

theorem cpf_is_digit_subsequence_witness:
  "digits ascii_runtime (Some (str ''123.456.789-09'')) = str ''12345678909''
   \<and> operacoes_request example_config (bearer ascii_runtime (PStr (str ''abc'')))
        (str ''12345678909'') example_body
       \<in> set (fst (formalizar example_config ascii_runtime (scripted until_proposal) example_body))
   \<and> map_of (payload (operacoes_request example_config (bearer ascii_runtime (PStr (str ''abc'')))
                 (str ''12345678909'') example_body)) (str ''cpf'')
       = Some (PStr (filter (isdecimal ascii_runtime) (str ''123.456.789-09'')))
   \<and> filter (isdecimal ascii_runtime) (str ''123.456.789-09'') = str ''12345678909''
   \<and> get_token example_config ascii_runtime
        (scripted [(''/gera-token'', token_abc),
                   (''/consignado-trabalhador/consulta-ofertas'', ofertas_refin)])
       = ([gera_token example_config], Inr (PStr (str ''abc'')))
   \<and> fst (consulta_ofertas example_config ascii_runtime
             (scripted [(''/gera-token'', token_abc),
                        (''/consignado-trabalhador/consulta-ofertas'', ofertas_refin)])
             example_consulta)
       = [gera_token example_config,
          consulta_request example_config ascii_runtime (PStr (str ''abc'')) (str ''12345678909'')]
   \<and> payload (consulta_request example_config ascii_runtime (PStr (str ''abc''))
                (str ''12345678909''))
       = [(str ''cpf'', PStr (str ''12345678909''))]
   \<and> snd (consulta_ofertas example_config ascii_runtime
             (scripted [(''/gera-token'', token_abc),
                        (''/consignado-trabalhador/consulta-ofertas'', ofertas_refin)])
             example_consulta)
       = Inr (PDict [(str ''status'', PStr (str ''ok'')),
                     (str ''cpf'', PStr (str ''12345678909'')),
                     (str ''total_ofertas'', PInt 1),
                     (str ''ofertas'',
                      PList [PDict [(str ''oferta'', PStr (str ''Refin'')),
                                    (str ''resposta'', PStr (str ''Aprovado''))]])])"
proof -
  let ?Lc = "scripted [(''/gera-token'', token_abc),
                       (''/consignado-trabalhador/consulta-ofertas'', ofertas_refin)]"
  let ?j = "PDict [(str ''dados'',
       PList [PDict [(str ''descricao'', PStr (str ''Refin'')),
                     (str ''situacao'', PStr (str ''Aprovado''))]])]"
  let ?os = "[PDict [(str ''oferta'', PStr (str ''Refin'')),
                     (str ''resposta'', PStr (str ''Aprovado''))]]"
  have d: "filter (isdecimal ascii_runtime) (str ''123.456.789-09'') = str ''12345678909''"
    using example_digits by (simp add: digits_filter)
  have c: "FormalizarIn.cpf example_body = str ''123.456.789-09''"
    by (simp add: example_body_def)
  have cq: "ConsultaIn.cpf example_consulta = str ''123.456.789-09''"
    by (simp add: example_consulta_def)
  have tok: "get_token example_config ascii_runtime (scripted until_proposal)
               = ([gera_token example_config], Inr (PStr (str ''abc'')))"
    by (simp add: get_token_send until_proposal_def token_abc_def)
  have m: "operacoes_request example_config (bearer ascii_runtime (PStr (str ''abc'')))
             (str ''12345678909'') example_body
           \<in> set (fst (formalizar example_config ascii_runtime (scripted until_proposal) example_body))"
    by (simp add: formalizar_def tok c Let_def in_fst_and_then fst_operacoes)
  have p: "map_of (payload (operacoes_request example_config (bearer ascii_runtime (PStr (str ''abc'')))
                 (str ''12345678909'') example_body)) (str ''cpf'')
             = Some (PStr (str ''12345678909''))"
    by (simp add: operacoes_request_def params1_def)
  note t = cpf_is_digit_subsequence
      [of ascii_runtime "str ''123.456.789-09''" example_config "scripted until_proposal"
          example_consulta example_body, THEN conjunct2, THEN conjunct2, THEN conjunct2,
          THEN conjunct1]
  from bspec [OF t m]
  have "map_of (payload (operacoes_request example_config (bearer ascii_runtime (PStr (str ''abc'')))
                 (str ''12345678909'') example_body)) (str ''cpf'')
          = Some (PStr (str ''12345678909''))
        \<longrightarrow> PStr (str ''12345678909'')
              = PStr (filter (isdecimal ascii_runtime) (FormalizarIn.cpf example_body))"
    by (rule spec)
  from mp [OF this p] have e: "str ''12345678909'' = filter (isdecimal ascii_runtime) (str ''123.456.789-09'')"
    unfolding c by simp
  have p': "map_of (payload (operacoes_request example_config (bearer ascii_runtime (PStr (str ''abc'')))
                 (str ''12345678909'') example_body)) (str ''cpf'')
              = Some (PStr (filter (isdecimal ascii_runtime) (str ''123.456.789-09'')))"
    by (subst e [symmetric]) (rule p)
  have tokc: "get_token example_config ascii_runtime ?Lc
               = ([gera_token example_config], Inr (PStr (str ''abc'')))"
    by (simp add: get_token_send token_abc_def)
  have lr: "?Lc (consulta_request example_config ascii_runtime (PStr (str ''abc''))
                  (filter (isdecimal ascii_runtime) (ConsultaIn.cpf example_consulta)))
              = Inr ofertas_refin"
    by simp
  have nh: "\<not> is_html ofertas_refin" by (simp add: ofertas_refin_def)
  have jb: "json_body ofertas_refin = Some ?j" by (simp add: ofertas_refin_def)
  note u = cpf_is_digit_subsequence
      [of ascii_runtime "str ''123.456.789-09''" example_config ?Lc
          example_consulta example_body, THEN conjunct2, THEN conjunct2, THEN conjunct2,
          THEN conjunct2]
  from u [THEN conjunct1, THEN spec, THEN spec, THEN mp, OF tokc]
  have tr: "fst (consulta_ofertas example_config ascii_runtime ?Lc example_consulta)
       = [gera_token example_config,
          consulta_request example_config ascii_runtime (PStr (str ''abc'')) (str ''12345678909'')]"
    and pl: "payload (consulta_request example_config ascii_runtime (PStr (str ''abc''))
                (str ''12345678909''))
       = [(str ''cpf'', PStr (str ''12345678909''))]"
    unfolding cq d by (rule conjunct1, rule conjunct2)
  have hyp: "get_token example_config ascii_runtime ?Lc
               = ([gera_token example_config], Inr (PStr (str ''abc'')))
         \<and> ?Lc (consulta_request example_config ascii_runtime (PStr (str ''abc''))
                  (filter (isdecimal ascii_runtime) (ConsultaIn.cpf example_consulta)))
              = Inr ofertas_refin
         \<and> \<not> is_html ofertas_refin \<and> json_body ofertas_refin = Some ?j
         \<and> ofertas_of ?j = Inr ?os"
    using tokc lr nh jb example_ofertas_refin by (intro conjI)
  from u [THEN conjunct2, THEN conjunct1, THEN spec, THEN spec, THEN spec, THEN spec, THEN spec,
          THEN mp, OF hyp]
  have an: "snd (consulta_ofertas example_config ascii_runtime ?Lc example_consulta)
       = Inr (PDict [(str ''status'', PStr (str ''ok'')),
                     (str ''cpf'', PStr (str ''12345678909'')),
                     (str ''total_ofertas'', PInt 1),
                     (str ''ofertas'', PList ?os)])"
    unfolding cq d by simp
  from example_digits m p' d tokc tr pl an show ?thesis by (intro conjI)
qed

section \<open>The best table\<close>

lemma set_insort_lt: "set (insort_lt x ys) = insert x (set ys)"
  by (induction ys) auto

lemma insort_lt_not_Nil [simp]: "insort_lt x ys \<noteq> []"
  by (cases ys) auto

lemma last_insort_lt:
  "last (insort_lt x ys) = (if \<exists>y \<in> set ys. float_lt (fst x) (fst y) then last ys else x)"
  by (induction ys) auto

lemma list_sort_rev: "list_sort (rev kxs) = foldr insort_lt kxs []"
  by (simp add: list_sort_def foldr_conv_foldl)

lemma set_foldr_insort: "set (foldr insort_lt kxs []) = set kxs"
  by (induction kxs) (auto simp: set_insort_lt)

lemma foldr_insort_Nil [simp]: "foldr insort_lt kxs [] = [] \<longleftrightarrow> kxs = []"
  by (cases kxs) auto

lemma last_sorted_first_max:
  assumes "kxs \<noteq> []" and "\<forall>kx \<in> set kxs. \<exists>q. fst kx = Finite q"
  shows "\<exists>pre q b post. kxs = pre @ (Finite q, b) # post
           \<and> last (foldr insort_lt kxs []) = (Finite q, b)
           \<and> (\<forall>y \<in> set pre. \<exists>p. fst y = Finite p \<and> p < q)
           \<and> (\<forall>y \<in> set post. \<exists>p. fst y = Finite p \<and> p \<le> q)"
  using assms
proof (induction kxs)
  case Nil
  then show ?case by simp
next
  case (Cons x xs)
  from Cons.prems obtain qx where qx: "fst x = Finite qx" by auto
  have fin: "\<forall>kx \<in> set xs. \<exists>q. fst kx = Finite q" using Cons.prems by auto
  show ?case
  proof (cases "\<exists>y \<in> set xs. float_lt (fst x) (fst y)")
    case False
    have "\<forall>y \<in> set xs. \<exists>p. fst y = Finite p \<and> p \<le> qx"
    proof
      fix y assume y: "y \<in> set xs"
      with fin obtain p where p: "fst y = Finite p" by auto
      from False y have "\<not> float_lt (fst x) (fst y)" by auto
      with qx p show "\<exists>p. fst y = Finite p \<and> p \<le> qx" by simp
    qed
    moreover have "last (foldr insort_lt (x # xs) []) = x"
      using False by (simp add: last_insort_lt set_foldr_insort)
    moreover have "x = (Finite qx, snd x)" using qx by (cases x) simp
    ultimately show ?thesis
      by (intro exI[of _ "[]"] exI[of _ qx] exI[of _ "snd x"] exI[of _ xs]) simp
  next
    case True
    then have ne: "xs \<noteq> []" by auto
    from Cons.IH[OF ne fin] obtain pre q b post where
      xs: "xs = pre @ (Finite q, b) # post"
      and la: "last (foldr insort_lt xs []) = (Finite q, b)"
      and pre: "\<forall>y \<in> set pre. \<exists>p. fst y = Finite p \<and> p < q"
      and post: "\<forall>y \<in> set post. \<exists>p. fst y = Finite p \<and> p \<le> q"
      by blast
    from True obtain y where y: "y \<in> set xs" "float_lt (fst x) (fst y)" by auto
    have "\<exists>p. fst y = Finite p \<and> p \<le> q"
      using y(1) xs pre post by (auto simp: less_imp_le)
    then obtain p where p: "fst y = Finite p" "p \<le> q" by auto
    with y(2) qx have "qx < q" by simp
    moreover have "last (foldr insort_lt (x # xs) []) = (Finite q, b)"
      using True la by (simp add: last_insort_lt set_foldr_insort)
    ultimately show ?thesis
      using xs pre post qx
      by (intro exI[of _ "x # pre"] exI[of _ q] exI[of _ b] exI[of _ post]) auto
  qed
qed

lemma keyed_Inr:
  "keyed rt t = Inr kxs \<Longrightarrow> map snd kxs = t \<and> (\<forall>kx \<in> set kxs. net_key rt (snd kx) = Inr (fst kx))"
  by (induction t arbitrary: kxs) (auto split: sum.splits)

lemma keyed_total:
  "\<forall>x \<in> set t. \<exists>k. net_key rt x = Inr k \<Longrightarrow> \<exists>kxs. keyed rt t = Inr kxs"
  by (induction t) (auto split: sum.splits)

lemma best_of_first_max:
  assumes "t \<noteq> []" and "\<forall>x \<in> set t. \<exists>q. net_key rt x = Inr (Finite q)"
  shows "\<exists>pre best post q. best_of rt (PList t) = Inr best \<and> t = pre @ best # post
           \<and> net_key rt best = Inr (Finite q)
           \<and> (\<forall>y \<in> set pre. \<exists>p. net_key rt y = Inr (Finite p) \<and> p < q)
           \<and> (\<forall>y \<in> set post. \<exists>p. net_key rt y = Inr (Finite p) \<and> p \<le> q)"
proof -
  from assms(2) have "\<forall>x \<in> set t. \<exists>k. net_key rt x = Inr k" by blast
  from keyed_total[OF this] obtain kxs where k: "keyed rt t = Inr kxs" by blast
  from keyed_Inr[OF k] have ms: "map snd kxs = t"
    and ks: "\<forall>kx \<in> set kxs. net_key rt (snd kx) = Inr (fst kx)" by auto
  from ms assms(1) have ne: "kxs \<noteq> []" by auto
  have fin: "\<forall>kx \<in> set kxs. \<exists>q. fst kx = Finite q"
  proof
    fix kx assume m: "kx \<in> set kxs"
    then have "snd kx \<in> set t" using ms by force
    with assms(2) obtain q where "net_key rt (snd kx) = Inr (Finite q)" by blast
    with ks m show "\<exists>q. fst kx = Finite q" by auto
  qed
  from last_sorted_first_max[OF ne fin] obtain pre q b post where
    kxs: "kxs = pre @ (Finite q, b) # post"
    and la: "last (foldr insort_lt kxs []) = (Finite q, b)"
    and pre: "\<forall>y \<in> set pre. \<exists>p. fst y = Finite p \<and> p < q"
    and post: "\<forall>y \<in> set post. \<exists>p. fst y = Finite p \<and> p \<le> q"
    by blast
  have "foldr insort_lt kxs [] \<noteq> []" using ne by simp
  then obtain ys where ys: "rev (foldr insort_lt kxs []) = last (foldr insort_lt kxs []) # ys"
    by (metis hd_rev list.exhaust_sel rev_is_Nil_conv)
  have sr: "sorted_reverse kxs = b # map snd ys"
    unfolding sorted_reverse_def list_sort_rev ys la by simp
  have best: "best_of rt (PList t) = Inr b"
    by (simp add: best_of_def py_iter_def k sr)
  have t: "t = map snd pre @ b # map snd post" using ms kxs by auto
  have kb: "net_key rt b = Inr (Finite q)" using ks kxs by auto
  have p1: "\<forall>y \<in> set (map snd pre). \<exists>p. net_key rt y = Inr (Finite p) \<and> p < q"
  proof
    fix y assume "y \<in> set (map snd pre)"
    then obtain kx where kx: "kx \<in> set pre" "y = snd kx" by auto
    with pre obtain p where p: "fst kx = Finite p" "p < q" by blast
    from kx kxs have "kx \<in> set kxs" by simp
    with ks have "net_key rt (snd kx) = Inr (fst kx)" by blast
    with kx p show "\<exists>p. net_key rt y = Inr (Finite p) \<and> p < q" by simp
  qed
  have p2: "\<forall>y \<in> set (map snd post). \<exists>p. net_key rt y = Inr (Finite p) \<and> p \<le> q"
  proof
    fix y assume "y \<in> set (map snd post)"
    then obtain kx where kx: "kx \<in> set post" "y = snd kx" by auto
    with post obtain p where p: "fst kx = Finite p" "p \<le> q" by blast
    from kx kxs have "kx \<in> set kxs" by simp
    with ks have "net_key rt (snd kx) = Inr (fst kx)" by blast
    with kx p show "\<exists>p. net_key rt y = Inr (Finite p) \<and> p \<le> q" by simp
  qed
  from best t kb p1 p2 show ?thesis by blast
qed


lemma operacoes_best:
  assumes "L (operacoes_request cfg h c body) = Inr r"
    and "json_body r = Some (PDict d)"
    and "map_of d (str ''tabelas'') = Some t"
    and "truthy t"
  shows "operacoes_disponiveis cfg rt L h c body =
           ([operacoes_request cfg h c body],
            case best_of rt t of Inl x \<Rightarrow> Inl (Unhandled x) | Inr best \<Rightarrow> Inr best)"
  using assms by (simp add: operacoes_send lift_def split: sum.splits)

text \<open>
  C1. When the available operations answer with a non-empty list of tables whose net
  values all convert to finite numbers, the table chosen by line 138 is an element of
  the list whose net value is the greatest, and every table listed before it has a
  strictly smaller net value: among equals the first listed wins.
\<close>

theorem best_table_is_first_maximum:
  assumes "t \<noteq> []"
    and "\<forall>x \<in> set t. \<exists>q. net_key rt x = Inr (Finite q)"
    and "L (operacoes_request cfg h c body) = Inr r"
    and "json_body r = Some (PDict d)"
    and "map_of d (str ''tabelas'') = Some (PList t)"
  shows "\<exists>pre best post q.
           operacoes_disponiveis cfg rt L h c body = ([operacoes_request cfg h c body], Inr best)
           \<and> best_of rt (PList t) = Inr best
           \<and> t = pre @ best # post
           \<and> net_key rt best = Inr (Finite q)
           \<and> (\<forall>y \<in> set pre. \<exists>p. net_key rt y = Inr (Finite p) \<and> p < q)
           \<and> (\<forall>y \<in> set post. \<exists>p. net_key rt y = Inr (Finite p) \<and> p \<le> q)"
proof -
  from best_of_first_max [OF assms(1,2)] obtain pre best post q where
    b: "best_of rt (PList t) = Inr best" and rest: "t = pre @ best # post"
      "net_key rt best = Inr (Finite q)"
      "\<forall>y \<in> set pre. \<exists>p. net_key rt y = Inr (Finite p) \<and> p < q"
      "\<forall>y \<in> set post. \<exists>p. net_key rt y = Inr (Finite p) \<and> p \<le> q"
    by blast
  have "truthy (PList t)" using assms(1) by simp
  with assms(3,4,5) b
  have "operacoes_disponiveis cfg rt L h c body = ([operacoes_request cfg h c body], Inr best)"
    by (simp add: operacoes_best)
  with b rest show ?thesis by blast
qed

lemma example_keys [simp]:
  "net_key ascii_runtime table_a = Inr (Finite 1000)"
  "net_key ascii_runtime table_b = Inr (Finite 1500)"
  "net_key ascii_runtime table_c = Inr (Finite 1500)"
  by (simp_all add: net_key_def py_float_def table_a_def table_b_def table_c_def)

lemma example_best: "best_of ascii_runtime (PList [table_a, table_b, table_c]) = Inr table_b"
  by (simp add: best_of_def py_iter_def sorted_reverse_def list_sort_def)

lemma example_operacoes_answer:
  "scripted until_proposal (operacoes_request example_config h c body) = Inr tabelas_abc"
  by (simp add: until_proposal_def)

theorem best_table_is_first_maximum_witness:
  "net_key ascii_runtime table_a = Inr (Finite 1000)
   \<and> net_key ascii_runtime table_b = Inr (Finite 1500)
   \<and> net_key ascii_runtime table_c = Inr (Finite 1500)
   \<and> scripted until_proposal
        (operacoes_request example_config (bearer ascii_runtime (PStr (str ''abc'')))
           (str ''12345678909'') example_body) = Inr tabelas_abc
   \<and> json_body tabelas_abc = Some (PDict [(str ''tabelas'', PList [table_a, table_b, table_c])])
   \<and> operacoes_disponiveis example_config ascii_runtime (scripted until_proposal)
        (bearer ascii_runtime (PStr (str ''abc''))) (str ''12345678909'') example_body
       = ([operacoes_request example_config (bearer ascii_runtime (PStr (str ''abc'')))
             (str ''12345678909'') example_body], Inr table_b)
   \<and> [table_a, table_b, table_c] = [table_a] @ table_b # [table_c]"
proof -
  have h1: "[table_a, table_b, table_c] \<noteq> []" by simp
  have h2: "\<forall>x \<in> set [table_a, table_b, table_c]. \<exists>q. net_key ascii_runtime x = Inr (Finite q)"
    by simp
  have h3: "scripted until_proposal
        (operacoes_request example_config (bearer ascii_runtime (PStr (str ''abc'')))
           (str ''12345678909'') example_body) = Inr tabelas_abc"
    by (rule example_operacoes_answer)
  have h4: "json_body tabelas_abc = Some (PDict [(str ''tabelas'', PList [table_a, table_b, table_c])])"
    by (simp add: tabelas_abc_def)
  have h5: "map_of [(str ''tabelas'', PList [table_a, table_b, table_c])] (str ''tabelas'')
              = Some (PList [table_a, table_b, table_c])"
    by simp
  from best_table_is_first_maximum
    [where t = "[table_a, table_b, table_c]" and rt = ascii_runtime
       and L = "scripted until_proposal" and cfg = example_config
       and h = "bearer ascii_runtime (PStr (str ''abc''))" and c = "str ''12345678909''"
       and body = example_body and r = tabelas_abc
       and d = "[(str ''tabelas'', PList [table_a, table_b, table_c])]",
     OF h1 h2 h3 h4 h5]
  obtain best where
    op: "operacoes_disponiveis example_config ascii_runtime (scripted until_proposal)
           (bearer ascii_runtime (PStr (str ''abc''))) (str ''12345678909'') example_body
           = ([operacoes_request example_config (bearer ascii_runtime (PStr (str ''abc'')))
                 (str ''12345678909'') example_body], Inr best)"
    and b: "best_of ascii_runtime (PList [table_a, table_b, table_c]) = Inr best"
    by blast
  from b have "best = table_b" by (simp add: example_best)
  with op h3 h4 show ?thesis by simp
qed

section \<open>The formalization, step by step\<close>

lemma example_token:
  "get_token example_config rt (scripted ((''/gera-token'', token_abc) # rest))
     = ([gera_token example_config], Inr (PStr (str ''abc'')))"
  by (simp add: get_token_send token_abc_def)

lemma get_token_trace: "get_token cfg rt L = (tr, res) \<Longrightarrow> tr = [gera_token cfg]"
  using fst_get_token [of cfg rt L] by simp

lemma meth_simps [simp]:
  "meth (gera_token cfg) = GET"
  "meth (operacoes_request cfg h c body) = GET"
  by (simp_all add: gera_token_def operacoes_request_def)

text \<open>
  C4 (amended). When the token has been obtained and the available operations answer
  with a JSON object whose \<^verbatim>\<open>tabelas\<close> is absent, the empty list or another falsy value
  (\<^verbatim>\<open>null\<close> among them), the formalization ends with the 400
  \<^verbatim>\<open>"Sem tabela disponivel ..."\<close> (NoEligibleTable) after exactly two requests, the token
  exchange and the query of available operations: no step of the proposal (simulate,
  register, proposal, send link: the POST requests) is invoked.
\<close>

theorem no_table_ends_before_any_step:
  assumes "get_token cfg rt L = (tr, Inr token)"
    and "L (operacoes_request cfg (bearer rt token) (digits rt (Some (FormalizarIn.cpf body))) body)
           = Inr r"
    and "json_body r = Some (PDict d)"
    and "case map_of d (str ''tabelas'') of None \<Rightarrow> True | Some t \<Rightarrow> \<not> truthy t"
  shows "formalizar cfg rt L body
           = ([gera_token cfg,
               operacoes_request cfg (bearer rt token) (digits rt (Some (FormalizarIn.cpf body))) body],
              Inl (HTTPException 400 SemTabela))
         \<and> spec_kind (HTTPException 400 SemTabela) = NoEligibleTable
         \<and> (\<forall>rq \<in> set (fst (formalizar cfg rt L body)). meth rq = GET)"
proof -
  from assms(1) have tr: "tr = [gera_token cfg]" by (rule get_token_trace)
  have op: "operacoes_disponiveis cfg rt L (bearer rt token)
              (digits rt (Some (FormalizarIn.cpf body))) body
            = ([operacoes_request cfg (bearer rt token) (digits rt (Some (FormalizarIn.cpf body))) body],
               Inl (HTTPException 400 SemTabela))"
    using assms(2,3,4) by (auto simp: operacoes_send fail_def split: option.splits)
  have "formalizar cfg rt L body
           = ([gera_token cfg,
               operacoes_request cfg (bearer rt token) (digits rt (Some (FormalizarIn.cpf body))) body],
              Inl (HTTPException 400 SemTabela))"
    by (simp add: formalizar_def Let_def assms(1) tr op)
  then show ?thesis by simp
qed

theorem no_table_ends_before_any_step_witness:
  "get_token example_config ascii_runtime
      (scripted [(''/gera-token'', token_abc),
                 (''/proposta/operacoes-disponiveis'', json_response (PDict [(str ''tabelas'', PList [])]))])
     = ([gera_token example_config], Inr (PStr (str ''abc'')))
   \<and> scripted [(''/gera-token'', token_abc),
                (''/proposta/operacoes-disponiveis'', json_response (PDict [(str ''tabelas'', PList [])]))]
        (operacoes_request example_config (bearer ascii_runtime (PStr (str ''abc'')))
           (digits ascii_runtime (Some (FormalizarIn.cpf example_body))) example_body)
       = Inr (json_response (PDict [(str ''tabelas'', PList [])]))
   \<and> map_of [(str ''tabelas'', PList [])] (str ''tabelas'') = Some (PList [])
   \<and> formalizar example_config ascii_runtime
        (scripted [(''/gera-token'', token_abc),
                   (''/proposta/operacoes-disponiveis'', json_response (PDict [(str ''tabelas'', PList [])]))])
        example_body
       = ([gera_token example_config,
           operacoes_request example_config (bearer ascii_runtime (PStr (str ''abc'')))
             (digits ascii_runtime (Some (FormalizarIn.cpf example_body))) example_body],
          Inl (HTTPException 400 SemTabela))"
proof -
  let ?L = "scripted [(''/gera-token'', token_abc),
                 (''/proposta/operacoes-disponiveis'', json_response (PDict [(str ''tabelas'', PList [])]))]"
  have h1: "get_token example_config ascii_runtime ?L
              = ([gera_token example_config], Inr (PStr (str ''abc'')))"
    by (rule example_token)
  have h2: "?L (operacoes_request example_config (bearer ascii_runtime (PStr (str ''abc'')))
           (digits ascii_runtime (Some (FormalizarIn.cpf example_body))) example_body)
       = Inr (json_response (PDict [(str ''tabelas'', PList [])]))"
    by simp
  have h3: "json_body (json_response (PDict [(str ''tabelas'', PList [])]))
              = Some (PDict [(str ''tabelas'', PList [])])"
    by simp
  have h4: "case map_of [(str ''tabelas'', PList [])] (str ''tabelas'') of
              None \<Rightarrow> True | Some t \<Rightarrow> \<not> truthy t"
    by simp
  have h5: "map_of [(str ''tabelas'', PList [])] (str ''tabelas'') = Some (PList [])"
    by simp
  from no_table_ends_before_any_step [OF h1 h2 h3 h4]
  have f: "formalizar example_config ascii_runtime ?L example_body
       = ([gera_token example_config,
           operacoes_request example_config (bearer ascii_runtime (PStr (str ''abc'')))
             (digits ascii_runtime (Some (FormalizarIn.cpf example_body))) example_body],
          Inl (HTTPException 400 SemTabela))"
    by (rule conjunct1)
  from h1 h2 h5 f show ?thesis by (intro conjI)
qed

lemma dec_examples [simp]: "dec 0 = str ''0''" "dec 84 = str ''84''" "dec 96 = str ''96''"
  "dec 1500 = str ''1500''"
  by (simp_all add: dec.simps str_def)

lemma example_fd1_b:
  "fd1 example_config ascii_runtime c body table_b =
     Inr [(str ''produto'', PStr (str ''D'')),
          (str ''tipo_operacao'', PStr (str ''13'')),
          (str ''averbador'', PStr (str ''10010'')),
          (str ''convenio'', PStr (str ''3'')),
          (str ''cpf'', PStr c),
          (str ''data_nascimento'', PStr (FormalizarIn.data_nascimento body)),
          (str ''login_certificado'', PStr (str ''96676'')),
          (str ''codigo_tabela'', PStr (str ''B'')),
          (str ''prazo'', PStr (str ''84'')),
          (str ''valor_operacao'', PStr (str ''1800.00'')),
          (str ''valor_parcela'', PStr (str ''200.00'')),
          (str ''coeficiente'', PStr (str ''0.05''))]"
  by (simp add: fd1_def py_index_def table_b_def py_str_def example_config_def)

lemma step_ok:
  "L rq = Inr r \<Longrightarrow> json_body r = Some (PDict d) \<Longrightarrow> map_of d k = Some v \<Longrightarrow> truthy v \<Longrightarrow>
   and_then (send L rq) (\<lambda>r. and_then (lift (r_json r)) (\<lambda>j.
     and_then (lift (py_get j k PNone)) (\<lambda>x. if \<not> truthy x then fail (e j) else ret x)))
   = ([rq], Inr v)"
  by (simp add: ret_def)

lemma etapa1_ok:
  assumes "fd1 cfg rt c body best = Inr fd" and "L (simulador_request cfg h fd) = Inr r"
    and "json_body r = Some (PDict d)" and "map_of d (str ''id_simulador'') = Some v" and "truthy v"
  shows "etapa1_simulador cfg rt L h c body best = ([simulador_request cfg h fd], Inr v)"
  using assms by (simp add: etapa1_send ret_def)

lemma etapa2_ok:
  assumes "L (dados_request cfg h c body id_sim) = Inr r"
    and "json_body r = Some (PDict d)" and "map_of d (str ''codigo_cliente'') = Some v" and "truthy v"
  shows "etapa2_dados_pessoais cfg L h c body id_sim = ([dados_request cfg h c body id_sim], Inr v)"
  using assms by (simp add: etapa2_send ret_def)

lemma etapa3_ok:
  assumes "L (proposta_request cfg h cc id_sim) = Inr r"
    and "json_body r = Some (PDict d)" and "map_of d (str ''codigo'') = Some v" and "truthy v"
  shows "etapa3_proposta_cadastro cfg L h cc id_sim
           = ([proposta_request cfg h cc id_sim],
              Inr (v, case map_of d (str ''url_formalizacao'') of None \<Rightarrow> PNone | Some u \<Rightarrow> u))"
  using assms by (simp add: etapa3_send ret_def)

text \<open>
  C3 (amended). In a run that has obtained the token, chosen a table and got a
  simulation identifier, when the register step answers with a JSON object \<open>j3\<close> that
  has no \<^verbatim>\<open>codigo_cliente\<close>, or a falsy one, the formalization ends with the 502
  \<^verbatim>\<open>"Falha etapa2: {j3}"\<close> right after the register request: StepFailed("register", ...)
  with the parsed object, as \<^verbatim>\<open>str\<close> formats it, and not the text of the response. No
  request goes to the proposal endpoint.
\<close>

theorem register_without_client_code_fails:
  assumes "get_token cfg rt L = (tr0, Inr token)"
    and "h = bearer rt token" and "c = digits rt (Some (FormalizarIn.cpf body))"
    and "operacoes_disponiveis cfg rt L h c body = (tr1, Inr best)"
    and "etapa1_simulador cfg rt L h c body best = (tr2, Inr id_sim)"
    and "L (dados_request cfg h c body id_sim) = Inr r"
    and "json_body r = Some (PDict d)"
    and "case map_of d (str ''codigo_cliente'') of None \<Rightarrow> True | Some v \<Rightarrow> \<not> truthy v"
  shows "formalizar cfg rt L body
           = (tr0 @ tr1 @ tr2 @ [dados_request cfg h c body id_sim],
              Inl (HTTPException 502 (FalhaEtapa2 (PDict d))))
         \<and> spec_kind (HTTPException 502 (FalhaEtapa2 (PDict d))) = StepFailed ''register'' (PDict d)
         \<and> (\<forall>rq \<in> set (fst (formalizar cfg rt L body)).
               url rq \<noteq> FACTA_BASE cfg @ str ''/proposta/etapa3-proposta-cadastro'')"
proof -
  have e2: "etapa2_dados_pessoais cfg L h c body id_sim
              = ([dados_request cfg h c body id_sim], Inl (HTTPException 502 (FalhaEtapa2 (PDict d))))"
    using assms(6,7,8) by (auto simp: etapa2_send fail_def split: option.splits)
  have f: "formalizar cfg rt L body
           = (tr0 @ tr1 @ tr2 @ [dados_request cfg h c body id_sim],
              Inl (HTTPException 502 (FalhaEtapa2 (PDict d))))"
    using assms(1,4,5) e2 unfolding formalizar_def Let_def assms(2,3) by simp
  have t0: "tr0 = [gera_token cfg]" using assms(1) by (rule get_token_trace)
  have t1: "tr1 = [operacoes_request cfg h c body]"
    using fst_operacoes [of cfg rt L h c body] assms(4) by simp
  have t2: "\<forall>rq \<in> set tr2. url rq = FACTA_BASE cfg @ str ''/proposta/etapa1-simulador''"
    using fst_etapa1 [of cfg rt L h c body best] assms(5) by (auto split: sum.splits)
  have "\<forall>rq \<in> set (tr0 @ tr1 @ tr2 @ [dados_request cfg h c body id_sim]).
               url rq \<noteq> FACTA_BASE cfg @ str ''/proposta/etapa3-proposta-cadastro''"
    using t2 by (auto simp: t0 t1)
  with f show ?thesis by simp
qed

text \<open>
  C8 (amended). The last step posts the proposal code with the fixed marker
  \<^verbatim>\<open>"Whatsapp"\<close>; once the call returns a response, whatever its status, content type and
  body, the formalization succeeds with the proposal code and the formalization URL.
\<close>

theorem send_link_response_is_ignored:
  assumes "get_token cfg rt L = (tr0, Inr token)"
    and "h = bearer rt token" and "c = digits rt (Some (FormalizarIn.cpf body))"
    and "operacoes_disponiveis cfg rt L h c body = (tr1, Inr best)"
    and "etapa1_simulador cfg rt L h c body best = (tr2, Inr id_sim)"
    and "etapa2_dados_pessoais cfg L h c body id_sim = (tr3, Inr codigo_cliente)"
    and "etapa3_proposta_cadastro cfg L h codigo_cliente id_sim = (tr4, Inr (codigo, url_form))"
    and "L (envio_request cfg h codigo) = Inr r"
  shows "formalizar cfg rt L body
           = (tr0 @ tr1 @ tr2 @ tr3 @ tr4 @ [envio_request cfg h codigo],
              Inr (PDict [(str ''status'', PStr (str ''ok'')),
                          (str ''mensagem'', PStr (str ''Proposta criada e link enviado.'')),
                          (str ''codigo'', codigo),
                          (str ''url_formalizacao'', url_form)]))
         \<and> payload (envio_request cfg h codigo)
             = [(str ''codigo_af'', codigo), (str ''tipo_envio'', PStr (str ''Whatsapp''))]"
proof -
  have e: "envio_link cfg L h codigo = ([envio_request cfg h codigo], Inr ())"
    using assms(8) by (simp add: envio_send ret_def)
  have "formalizar cfg rt L body
           = (tr0 @ tr1 @ tr2 @ tr3 @ tr4 @ [envio_request cfg h codigo],
              Inr (proposta_criada codigo url_form))"
    using assms(1,4,5,6,7) e unfolding formalizar_def Let_def assms(2,3) by simp
  then show ?thesis by (simp add: proposta_criada_def envio_request_def)
qed

text \<open>
  C10. Once a table has been chosen, the form of the simulation reads its
  \<^verbatim>\<open>codigoTabela\<close> and \<^verbatim>\<open>prazo\<close> by index: when one of them is missing the formalization
  ends with an uncaught \<^verbatim>\<open>KeyError\<close>, which is none of the classified failures, and
  nothing more is sent. When both are there the simulation is requested; its
  \<^verbatim>\<open>valor_operacao\<close> is the text of \<^verbatim>\<open>contrato\<close>, or else of \<^verbatim>\<open>valor_liquido\<close>, or else of
  0, its \<^verbatim>\<open>valor_parcela\<close> the text of \<^verbatim>\<open>parcela\<close> or else of 0, and its \<^verbatim>\<open>coeficiente\<close> the
  text of \<^verbatim>\<open>coeficiente\<close> or else of \<^verbatim>\<open>None\<close>.
\<close>

theorem table_code_and_term_are_required:
  assumes "get_token cfg rt L = (tr0, Inr token)"
    and "h = bearer rt token" and "c = digits rt (Some (FormalizarIn.cpf body))"
    and "operacoes_disponiveis cfg rt L h c body = (tr1, Inr (PDict b))"
  shows "(map_of b (str ''codigoTabela'') = None \<or> map_of b (str ''prazo'') = None
            \<longrightarrow> formalizar cfg rt L body = (tr0 @ tr1, Inl (Unhandled KeyError))
                \<and> spec_kind (Unhandled KeyError) = Unclassified KeyError)
         \<and> (\<forall>ct pz. map_of b (str ''codigoTabela'') = Some ct \<and> map_of b (str ''prazo'') = Some pz
            \<longrightarrow> (\<exists>fd rest res.
                  fd1 cfg rt c body (PDict b) = Inr fd
                  \<and> formalizar cfg rt L body = (tr0 @ tr1 @ simulador_request cfg h fd # rest, res)
                  \<and> map_of fd (str ''codigo_tabela'') = Some (PStr (py_str rt ct))
                  \<and> map_of fd (str ''prazo'') = Some (PStr (py_str rt pz))
                  \<and> map_of fd (str ''valor_operacao'')
                      = Some (PStr (py_str rt
                          (case map_of b (str ''contrato'') of
                             Some v \<Rightarrow> v
                           | None \<Rightarrow> (case map_of b (str ''valor_liquido'') of
                                        Some v \<Rightarrow> v
                                      | None \<Rightarrow> PInt 0))))
                  \<and> map_of fd (str ''valor_parcela'')
                      = Some (PStr (py_str rt
                          (case map_of b (str ''parcela'') of Some v \<Rightarrow> v | None \<Rightarrow> PInt 0)))
                  \<and> map_of fd (str ''coeficiente'')
                      = Some (PStr (py_str rt
                          (case map_of b (str ''coeficiente'') of Some v \<Rightarrow> v | None \<Rightarrow> PNone)))))"
proof (intro conjI impI allI)
  assume m: "map_of b (str ''codigoTabela'') = None \<or> map_of b (str ''prazo'') = None"
  then have "fd1 cfg rt c body (PDict b) = Inl KeyError"
    by (auto simp: fd1_def py_index_def split: option.splits)
  then have "etapa1_simulador cfg rt L h c body (PDict b) = ([], Inl (Unhandled KeyError))"
    by (simp add: etapa1_send)
  with assms(1,4) show "formalizar cfg rt L body = (tr0 @ tr1, Inl (Unhandled KeyError))"
    unfolding formalizar_def Let_def assms(2,3) by simp
  show "spec_kind (Unhandled KeyError) = Unclassified KeyError" by simp
next
  fix ct pz
  assume p: "map_of b (str ''codigoTabela'') = Some ct \<and> map_of b (str ''prazo'') = Some pz"
  obtain fd where fd: "fd1 cfg rt c body (PDict b) = Inr fd"
    using p by (simp add: fd1_def py_index_def)
  have e: "fst (etapa1_simulador cfg rt L h c body (PDict b)) = [simulador_request cfg h fd]"
    by (simp add: fst_etapa1 fd)
  have "\<exists>rest. fst (formalizar cfg rt L body) = tr0 @ tr1 @ simulador_request cfg h fd # rest"
    using assms(1,4) e unfolding formalizar_def Let_def assms(2,3) by (simp add: fst_and_then)
  then obtain rest where "fst (formalizar cfg rt L body) = tr0 @ tr1 @ simulador_request cfg h fd # rest"
    by blast
  then have f: "formalizar cfg rt L body
                  = (tr0 @ tr1 @ simulador_request cfg h fd # rest, snd (formalizar cfg rt L body))"
    by (metis prod.collapse)
  from fd p have
    "map_of fd (str ''codigo_tabela'') = Some (PStr (py_str rt ct))"
    "map_of fd (str ''prazo'') = Some (PStr (py_str rt pz))"
    "map_of fd (str ''valor_operacao'')
       = Some (PStr (py_str rt
           (case map_of b (str ''contrato'') of
              Some v \<Rightarrow> v
            | None \<Rightarrow> (case map_of b (str ''valor_liquido'') of Some v \<Rightarrow> v | None \<Rightarrow> PInt 0))))"
    "map_of fd (str ''valor_parcela'')
       = Some (PStr (py_str rt (case map_of b (str ''parcela'') of Some v \<Rightarrow> v | None \<Rightarrow> PInt 0)))"
    "map_of fd (str ''coeficiente'')
       = Some (PStr (py_str rt (case map_of b (str ''coeficiente'') of Some v \<Rightarrow> v | None \<Rightarrow> PNone)))"
    by (auto simp: fd1_def py_index_def)
  with fd f show "\<exists>fd rest res.
                  fd1 cfg rt c body (PDict b) = Inr fd
                  \<and> formalizar cfg rt L body = (tr0 @ tr1 @ simulador_request cfg h fd # rest, res)
                  \<and> map_of fd (str ''codigo_tabela'') = Some (PStr (py_str rt ct))
                  \<and> map_of fd (str ''prazo'') = Some (PStr (py_str rt pz))
                  \<and> map_of fd (str ''valor_operacao'')
                      = Some (PStr (py_str rt
                          (case map_of b (str ''contrato'') of
                             Some v \<Rightarrow> v
                           | None \<Rightarrow> (case map_of b (str ''valor_liquido'') of
                                        Some v \<Rightarrow> v
                                      | None \<Rightarrow> PInt 0))))
                  \<and> map_of fd (str ''valor_parcela'')
                      = Some (PStr (py_str rt
                          (case map_of b (str ''parcela'') of Some v \<Rightarrow> v | None \<Rightarrow> PInt 0)))
                  \<and> map_of fd (str ''coeficiente'')
                      = Some (PStr (py_str rt
                          (case map_of b (str ''coeficiente'') of Some v \<Rightarrow> v | None \<Rightarrow> PNone)))"
    by blast
qed

subsection \<open>The example run, step by step\<close>

lemma example_cpf [simp]: "digits ascii_runtime (Some (FormalizarIn.cpf example_body)) = str ''12345678909''"
  by (simp add: example_body_def)

lemma example_operacoes:
  "L (operacoes_request example_config h c body) = Inr tabelas_abc \<Longrightarrow>
   operacoes_disponiveis example_config ascii_runtime L h c body
     = ([operacoes_request example_config h c body], Inr table_b)"
  by (simp add: operacoes_best [where d = "[(str ''tabelas'', PList [table_a, table_b, table_c])]"]
        tabelas_abc_def example_best)

lemma example_etapa1:
  "fd1 example_config ascii_runtime c body table_b = Inr fd \<Longrightarrow>
   L (simulador_request example_config h fd) = Inr simulador_ok \<Longrightarrow>
   etapa1_simulador example_config ascii_runtime L h c body table_b
     = ([simulador_request example_config h fd], Inr (PStr (str ''sim-1'')))"
  using etapa1_ok [where d = "[(str ''id_simulador'', PStr (str ''sim-1''))]"
                     and L = L and cfg = example_config and rt = ascii_runtime and h = h and c = c
                     and body = body and best = table_b and fd = fd
                     and r = simulador_ok and v = "PStr (str ''sim-1'')"]
  by (simp add: simulador_ok_def)

lemma example_etapa2:
  "L (dados_request example_config h c body id_sim) = Inr cliente_ok \<Longrightarrow>
   etapa2_dados_pessoais example_config L h c body id_sim
     = ([dados_request example_config h c body id_sim], Inr (PStr (str ''cli-1'')))"
  using etapa2_ok [where d = "[(str ''codigo_cliente'', PStr (str ''cli-1''))]"
                     and L = L and cfg = example_config and h = h and c = c
                     and body = body and id_sim = id_sim
                     and r = cliente_ok and v = "PStr (str ''cli-1'')"]
  by (simp add: cliente_ok_def)

lemma example_etapa3:
  "L (proposta_request example_config h cc id_sim) = Inr proposta_ok \<Longrightarrow>
   etapa3_proposta_cadastro example_config L h cc id_sim
     = ([proposta_request example_config h cc id_sim],
        Inr (PStr (str ''AF-1''), PStr (str ''https://f/AF-1'')))"
  using etapa3_ok [where d = "[(str ''codigo'', PStr (str ''AF-1'')),
                               (str ''url_formalizacao'', PStr (str ''https://f/AF-1''))]"
                     and L = L and cfg = example_config and h = h and cc = cc and id_sim = id_sim
                     and r = proposta_ok and v = "PStr (str ''AF-1'')"]
  by (simp add: proposta_ok_def)

text \<open>
  Read for every answer that yields no table list, the property fails: when the
  available operations answer with a body that is the empty list itself, or
  \<^verbatim>\<open>null\<close>, \<^verbatim>\<open>r1.json().get\<close> raises \<^verbatim>\<open>AttributeError\<close>, and when the body is not JSON
  \<^verbatim>\<open>r1.json()\<close> raises; nothing catches either, and the formalization ends with that
  exception, not with the 400.
\<close>

theorem no_table_counterexample:
  "formalizar example_config ascii_runtime
      (scripted [(''/gera-token'', token_abc),
                 (''/proposta/operacoes-disponiveis'', json_response (PList []))])
      example_body
     = ([gera_token example_config,
         operacoes_request example_config (bearer ascii_runtime (PStr (str ''abc'')))
           (str ''12345678909'') example_body],
        Inl (Unhandled AttributeError))
   \<and> formalizar example_config ascii_runtime
      (scripted [(''/gera-token'', token_abc),
                 (''/proposta/operacoes-disponiveis'', json_response PNone)])
      example_body
     = ([gera_token example_config,
         operacoes_request example_config (bearer ascii_runtime (PStr (str ''abc'')))
           (str ''12345678909'') example_body],
        Inl (Unhandled AttributeError))
   \<and> formalizar example_config ascii_runtime
      (scripted [(''/gera-token'', token_abc),
                 (''/proposta/operacoes-disponiveis'', plain_response)])
      example_body
     = ([gera_token example_config,
         operacoes_request example_config (bearer ascii_runtime (PStr (str ''abc'')))
           (str ''12345678909'') example_body],
        Inl (Unhandled JSONDecodeError))
   \<and> spec_kind (Unhandled AttributeError) = Unclassified AttributeError
   \<and> spec_kind (Unhandled JSONDecodeError) = Unclassified JSONDecodeError
   \<and> Unclassified AttributeError \<noteq> NoEligibleTable
   \<and> Unclassified JSONDecodeError \<noteq> NoEligibleTable"
proof -
  let ?h = "bearer ascii_runtime (PStr (str ''abc''))"
  let ?c = "str ''12345678909''"
  let ?rq = "operacoes_request example_config ?h ?c example_body"
  have o: "L ?rq = Inr r \<Longrightarrow> r_json r = Inr j \<Longrightarrow> py_get j (str ''tabelas'') (PList []) = Inl x \<Longrightarrow>
           operacoes_disponiveis example_config ascii_runtime L ?h ?c example_body
             = ([?rq], Inl (Unhandled x))" for L r j x
    by (simp add: operacoes_send)
  have o': "L ?rq = Inr r \<Longrightarrow> r_json r = Inl x \<Longrightarrow>
           operacoes_disponiveis example_config ascii_runtime L ?h ?c example_body
             = ([?rq], Inl (Unhandled x))" for L r x
    by (simp add: operacoes_send)
  have f: "operacoes_disponiveis example_config ascii_runtime
             (scripted ((''/gera-token'', token_abc) # rest)) ?h ?c example_body = ([?rq], Inl e) \<Longrightarrow>
           formalizar example_config ascii_runtime
             (scripted ((''/gera-token'', token_abc) # rest)) example_body = ([gera_token example_config, ?rq], Inl e)"
    for rest e
    unfolding formalizar_def Let_def example_cpf example_token by simp
  have a: "formalizar example_config ascii_runtime
      (scripted [(''/gera-token'', token_abc),
                 (''/proposta/operacoes-disponiveis'', json_response (PList []))])
      example_body = ([gera_token example_config, ?rq], Inl (Unhandled AttributeError))"
    by (rule f, rule o [where r = "json_response (PList [])" and j = "PList []"])
       (simp_all add: py_get_def)
  have b: "formalizar example_config ascii_runtime
      (scripted [(''/gera-token'', token_abc),
                 (''/proposta/operacoes-disponiveis'', json_response PNone)])
      example_body = ([gera_token example_config, ?rq], Inl (Unhandled AttributeError))"
    by (rule f, rule o [where r = "json_response PNone" and j = PNone])
       (simp_all add: py_get_def)
  have c: "formalizar example_config ascii_runtime
      (scripted [(''/gera-token'', token_abc),
                 (''/proposta/operacoes-disponiveis'', plain_response)])
      example_body = ([gera_token example_config, ?rq], Inl (Unhandled JSONDecodeError))"
    by (rule f, rule o' [where r = plain_response])
       (simp_all add: plain_response_def r_json_def)
  have k1: "spec_kind (Unhandled AttributeError) = Unclassified AttributeError" by simp
  have k2: "spec_kind (Unhandled JSONDecodeError) = Unclassified JSONDecodeError" by simp
  have n1: "Unclassified AttributeError \<noteq> NoEligibleTable" by simp
  have n2: "Unclassified JSONDecodeError \<noteq> NoEligibleTable" by simp
  from a b c k1 k2 n1 n2 show ?thesis by (intro conjI)
qed

theorem register_without_client_code_fails_witness:
  "get_token example_config ascii_runtime
      (scripted [(''/gera-token'', token_abc),
                 (''/proposta/operacoes-disponiveis'', tabelas_abc),
                 (''/proposta/etapa1-simulador'', simulador_ok),
                 (''/proposta/etapa2-dados-pessoais'', json_response cliente_recusado)])
     = ([gera_token example_config], Inr (PStr (str ''abc'')))
   \<and> scripted [(''/gera-token'', token_abc),
                (''/proposta/operacoes-disponiveis'', tabelas_abc),
                (''/proposta/etapa1-simulador'', simulador_ok),
                (''/proposta/etapa2-dados-pessoais'', json_response cliente_recusado)]
        (dados_request example_config (bearer ascii_runtime (PStr (str ''abc'')))
           (str ''12345678909'') example_body (PStr (str ''sim-1'')))
       = Inr (json_response cliente_recusado)
   \<and> py_get cliente_recusado (str ''codigo_cliente'') PNone = Inr PNone
   \<and> snd (formalizar example_config ascii_runtime
        (scripted [(''/gera-token'', token_abc),
                   (''/proposta/operacoes-disponiveis'', tabelas_abc),
                   (''/proposta/etapa1-simulador'', simulador_ok),
                   (''/proposta/etapa2-dados-pessoais'', json_response cliente_recusado)])
        example_body)
       = Inl (HTTPException 502 (FalhaEtapa2 cliente_recusado))
   \<and> map url (fst (formalizar example_config ascii_runtime
        (scripted [(''/gera-token'', token_abc),
                   (''/proposta/operacoes-disponiveis'', tabelas_abc),
                   (''/proposta/etapa1-simulador'', simulador_ok),
                   (''/proposta/etapa2-dados-pessoais'', json_response cliente_recusado)])
        example_body))
       = [str ''https://webservice-homol.facta.com.br/gera-token'',
          str ''https://webservice-homol.facta.com.br/proposta/operacoes-disponiveis'',
          str ''https://webservice-homol.facta.com.br/proposta/etapa1-simulador'',
          str ''https://webservice-homol.facta.com.br/proposta/etapa2-dados-pessoais'']"
proof -
  let ?L = "scripted [(''/gera-token'', token_abc),
                 (''/proposta/operacoes-disponiveis'', tabelas_abc),
                 (''/proposta/etapa1-simulador'', simulador_ok),
                 (''/proposta/etapa2-dados-pessoais'', json_response cliente_recusado)]"
  let ?h = "bearer ascii_runtime (PStr (str ''abc''))"
  let ?c = "str ''12345678909''"
  obtain fd where fd: "fd1 example_config ascii_runtime ?c example_body table_b = Inr fd"
    by (simp add: example_fd1_b)
  have h1: "get_token example_config ascii_runtime ?L
              = ([gera_token example_config], Inr (PStr (str ''abc'')))"
    by (rule example_token)
  have h2: "?h = bearer ascii_runtime (PStr (str ''abc''))" by simp
  have h3: "?c = digits ascii_runtime (Some (FormalizarIn.cpf example_body))" by simp
  have h4: "operacoes_disponiveis example_config ascii_runtime ?L ?h ?c example_body
              = ([operacoes_request example_config ?h ?c example_body], Inr table_b)"
    by (rule example_operacoes) simp
  have h5: "etapa1_simulador example_config ascii_runtime ?L ?h ?c example_body table_b
              = ([simulador_request example_config ?h fd], Inr (PStr (str ''sim-1'')))"
    by (rule example_etapa1 [OF fd]) simp
  have h6: "?L (dados_request example_config ?h ?c example_body (PStr (str ''sim-1'')))
              = Inr (json_response cliente_recusado)"
    by simp
  have h7: "json_body (json_response cliente_recusado)
              = Some (PDict [(str ''erro'', PBool True), (str ''mensagem'', PStr (str ''CPF invalido''))])"
    by (simp add: cliente_recusado_def)
  have h8: "case map_of [(str ''erro'', PBool True), (str ''mensagem'', PStr (str ''CPF invalido''))]
                   (str ''codigo_cliente'') of
              None \<Rightarrow> True | Some v \<Rightarrow> \<not> truthy v"
    by simp
  note t = register_without_client_code_fails [OF h1 h2 h3 h4 h5 h6 h7 h8, THEN conjunct1]
  have s: "snd (formalizar example_config ascii_runtime ?L example_body)
             = Inl (HTTPException 502 (FalhaEtapa2 cliente_recusado))"
    unfolding t by (simp add: cliente_recusado_def)
  have u: "map url (fst (formalizar example_config ascii_runtime ?L example_body))
       = [str ''https://webservice-homol.facta.com.br/gera-token'',
          str ''https://webservice-homol.facta.com.br/proposta/operacoes-disponiveis'',
          str ''https://webservice-homol.facta.com.br/proposta/etapa1-simulador'',
          str ''https://webservice-homol.facta.com.br/proposta/etapa2-dados-pessoais'']"
    unfolding t by simp
  have g: "py_get cliente_recusado (str ''codigo_cliente'') PNone = Inr PNone"
    by (simp add: cliente_recusado_def)
  from h1 h6 g s u show ?thesis by (intro conjI)
qed

text \<open>
  Read for every answer of the register step that has no \<^verbatim>\<open>codigo_cliente\<close>, the
  property fails: when the answer is a list, or \<^verbatim>\<open>null\<close>, \<^verbatim>\<open>j3.get\<close> raises
  \<^verbatim>\<open>AttributeError\<close>, and when it is not JSON \<^verbatim>\<open>r3.json()\<close> raises; nothing catches
  either, and the formalization ends with that exception, not with the 502 of the step.
\<close>

theorem register_counterexample:
  "formalizar example_config ascii_runtime
      (scripted [(''/gera-token'', token_abc),
                 (''/proposta/operacoes-disponiveis'', tabelas_abc),
                 (''/proposta/etapa1-simulador'', simulador_ok),
                 (''/proposta/etapa2-dados-pessoais'', json_response (PList []))])
      example_body
     = ([gera_token example_config,
         operacoes_request example_config (bearer ascii_runtime (PStr (str ''abc'')))
           (str ''12345678909'') example_body,
         simulador_request example_config (bearer ascii_runtime (PStr (str ''abc'')))
           [(str ''produto'', PStr (str ''D'')),
            (str ''tipo_operacao'', PStr (str ''13'')),
            (str ''averbador'', PStr (str ''10010'')),
            (str ''convenio'', PStr (str ''3'')),
            (str ''cpf'', PStr (str ''12345678909'')),
            (str ''data_nascimento'', PStr (FormalizarIn.data_nascimento example_body)),
            (str ''login_certificado'', PStr (str ''96676'')),
            (str ''codigo_tabela'', PStr (str ''B'')),
            (str ''prazo'', PStr (str ''84'')),
            (str ''valor_operacao'', PStr (str ''1800.00'')),
            (str ''valor_parcela'', PStr (str ''200.00'')),
            (str ''coeficiente'', PStr (str ''0.05''))],
         dados_request example_config (bearer ascii_runtime (PStr (str ''abc'')))
           (str ''12345678909'') example_body (PStr (str ''sim-1''))],
        Inl (Unhandled AttributeError))
   \<and> snd (formalizar example_config ascii_runtime
      (scripted [(''/gera-token'', token_abc),
                 (''/proposta/operacoes-disponiveis'', tabelas_abc),
                 (''/proposta/etapa1-simulador'', simulador_ok),
                 (''/proposta/etapa2-dados-pessoais'', plain_response)])
      example_body)
     = Inl (Unhandled JSONDecodeError)
   \<and> spec_kind (Unhandled AttributeError) = Unclassified AttributeError
   \<and> spec_kind (Unhandled JSONDecodeError) = Unclassified JSONDecodeError
   \<and> Unclassified AttributeError \<noteq> StepFailed ''register'' (PList [])"
proof -
  let ?h = "bearer ascii_runtime (PStr (str ''abc''))"
  let ?c = "str ''12345678909''"
  let ?fd = "[(str ''produto'', PStr (str ''D'')),
            (str ''tipo_operacao'', PStr (str ''13'')),
            (str ''averbador'', PStr (str ''10010'')),
            (str ''convenio'', PStr (str ''3'')),
            (str ''cpf'', PStr (str ''12345678909'')),
            (str ''data_nascimento'', PStr (FormalizarIn.data_nascimento example_body)),
            (str ''login_certificado'', PStr (str ''96676'')),
            (str ''codigo_tabela'', PStr (str ''B'')),
            (str ''prazo'', PStr (str ''84'')),
            (str ''valor_operacao'', PStr (str ''1800.00'')),
            (str ''valor_parcela'', PStr (str ''200.00'')),
            (str ''coeficiente'', PStr (str ''0.05''))]"
  let ?rq = "dados_request example_config ?h ?c example_body (PStr (str ''sim-1''))"
  have fd: "fd1 example_config ascii_runtime ?c example_body table_b = Inr ?fd"
    by (rule example_fd1_b)
  have f: "formalizar example_config ascii_runtime
             (scripted [(''/gera-token'', token_abc),
                 (''/proposta/operacoes-disponiveis'', tabelas_abc),
                 (''/proposta/etapa1-simulador'', simulador_ok),
                 (''/proposta/etapa2-dados-pessoais'', r)]) example_body
           = ([gera_token example_config, operacoes_request example_config ?h ?c example_body,
               simulador_request example_config ?h ?fd, ?rq], Inl e)"
    if e2: "etapa2_dados_pessoais example_config
             (scripted [(''/gera-token'', token_abc),
                 (''/proposta/operacoes-disponiveis'', tabelas_abc),
                 (''/proposta/etapa1-simulador'', simulador_ok),
                 (''/proposta/etapa2-dados-pessoais'', r)]) ?h ?c example_body (PStr (str ''sim-1''))
             = ([?rq], Inl e)" for r e
  proof -
    let ?L = "scripted [(''/gera-token'', token_abc),
                 (''/proposta/operacoes-disponiveis'', tabelas_abc),
                 (''/proposta/etapa1-simulador'', simulador_ok),
                 (''/proposta/etapa2-dados-pessoais'', r)]"
    have h1: "get_token example_config ascii_runtime ?L
              = ([gera_token example_config], Inr (PStr (str ''abc'')))"
      by (rule example_token)
    have h4: "operacoes_disponiveis example_config ascii_runtime ?L ?h ?c example_body
              = ([operacoes_request example_config ?h ?c example_body], Inr table_b)"
      by (rule example_operacoes) simp
    have h5: "etapa1_simulador example_config ascii_runtime ?L ?h ?c example_body table_b
              = ([simulador_request example_config ?h ?fd], Inr (PStr (str ''sim-1'')))"
      by (rule example_etapa1 [OF fd]) simp
    show ?thesis
      unfolding formalizar_def Let_def example_cpf h1 by (simp add: h4 h5 e2)
  qed
  have a: "formalizar example_config ascii_runtime
      (scripted [(''/gera-token'', token_abc),
                 (''/proposta/operacoes-disponiveis'', tabelas_abc),
                 (''/proposta/etapa1-simulador'', simulador_ok),
                 (''/proposta/etapa2-dados-pessoais'', json_response (PList []))])
      example_body
     = ([gera_token example_config, operacoes_request example_config ?h ?c example_body,
         simulador_request example_config ?h ?fd, ?rq], Inl (Unhandled AttributeError))"
    by (rule f) (simp add: etapa2_send py_get_def)
  have b: "formalizar example_config ascii_runtime
      (scripted [(''/gera-token'', token_abc),
                 (''/proposta/operacoes-disponiveis'', tabelas_abc),
                 (''/proposta/etapa1-simulador'', simulador_ok),
                 (''/proposta/etapa2-dados-pessoais'', plain_response)])
      example_body
     = ([gera_token example_config, operacoes_request example_config ?h ?c example_body,
         simulador_request example_config ?h ?fd, ?rq], Inl (Unhandled JSONDecodeError))"
    by (rule f) (simp add: etapa2_send plain_response_def r_json_def)
  have s: "snd (formalizar example_config ascii_runtime
      (scripted [(''/gera-token'', token_abc),
                 (''/proposta/operacoes-disponiveis'', tabelas_abc),
                 (''/proposta/etapa1-simulador'', simulador_ok),
                 (''/proposta/etapa2-dados-pessoais'', plain_response)])
      example_body) = Inl (Unhandled JSONDecodeError)"
    unfolding b by simp
  have k1: "spec_kind (Unhandled AttributeError) = Unclassified AttributeError" by simp
  have k2: "spec_kind (Unhandled JSONDecodeError) = Unclassified JSONDecodeError" by simp
  have n1: "Unclassified AttributeError \<noteq> StepFailed ''register'' (PList [])" by simp
  from a s k1 k2 n1 show ?thesis by (intro conjI)
qed

theorem send_link_response_is_ignored_witness:
  "get_token example_config ascii_runtime
      (scripted (until_proposal @ [(''/proposta/envio-link'', html_response)]))
     = ([gera_token example_config], Inr (PStr (str ''abc'')))
   \<and> etapa3_proposta_cadastro example_config
        (scripted (until_proposal @ [(''/proposta/envio-link'', html_response)]))
        (bearer ascii_runtime (PStr (str ''abc''))) (PStr (str ''cli-1'')) (PStr (str ''sim-1''))
       = ([proposta_request example_config (bearer ascii_runtime (PStr (str ''abc'')))
             (PStr (str ''cli-1'')) (PStr (str ''sim-1''))],
          Inr (PStr (str ''AF-1''), PStr (str ''https://f/AF-1'')))
   \<and> scripted (until_proposal @ [(''/proposta/envio-link'', html_response)])
        (envio_request example_config (bearer ascii_runtime (PStr (str ''abc''))) (PStr (str ''AF-1'')))
       = Inr html_response
   \<and> is_html html_response
   \<and> snd (formalizar example_config ascii_runtime
             (scripted (until_proposal @ [(''/proposta/envio-link'', html_response)])) example_body)
       = Inr (PDict [(str ''status'', PStr (str ''ok'')),
                     (str ''mensagem'', PStr (str ''Proposta criada e link enviado.'')),
                     (str ''codigo'', PStr (str ''AF-1'')),
                     (str ''url_formalizacao'', PStr (str ''https://f/AF-1''))])
   \<and> map url (fst (formalizar example_config ascii_runtime
             (scripted (until_proposal @ [(''/proposta/envio-link'', html_response)])) example_body))
       = [str ''https://webservice-homol.facta.com.br/gera-token'',
          str ''https://webservice-homol.facta.com.br/proposta/operacoes-disponiveis'',
          str ''https://webservice-homol.facta.com.br/proposta/etapa1-simulador'',
          str ''https://webservice-homol.facta.com.br/proposta/etapa2-dados-pessoais'',
          str ''https://webservice-homol.facta.com.br/proposta/etapa3-proposta-cadastro'',
          str ''https://webservice-homol.facta.com.br/proposta/envio-link'']"
proof -
  let ?L = "scripted (until_proposal @ [(''/proposta/envio-link'', html_response)])"
  let ?h = "bearer ascii_runtime (PStr (str ''abc''))"
  let ?c = "str ''12345678909''"
  obtain fd where fd: "fd1 example_config ascii_runtime ?c example_body table_b = Inr fd"
    by (simp add: example_fd1_b)
  have h1: "get_token example_config ascii_runtime ?L
              = ([gera_token example_config], Inr (PStr (str ''abc'')))"
    unfolding until_proposal_def append_Cons by (rule example_token)
  have h2: "?h = bearer ascii_runtime (PStr (str ''abc''))" by simp
  have h3: "?c = digits ascii_runtime (Some (FormalizarIn.cpf example_body))" by simp
  have h4: "operacoes_disponiveis example_config ascii_runtime ?L ?h ?c example_body
              = ([operacoes_request example_config ?h ?c example_body], Inr table_b)"
    by (rule example_operacoes) (simp add: until_proposal_def)
  have h5: "etapa1_simulador example_config ascii_runtime ?L ?h ?c example_body table_b
              = ([simulador_request example_config ?h fd], Inr (PStr (str ''sim-1'')))"
    by (rule example_etapa1 [OF fd]) (simp add: until_proposal_def)
  have h6: "etapa2_dados_pessoais example_config ?L ?h ?c example_body (PStr (str ''sim-1''))
              = ([dados_request example_config ?h ?c example_body (PStr (str ''sim-1''))],
                 Inr (PStr (str ''cli-1'')))"
    by (rule example_etapa2) (simp add: until_proposal_def)
  have h7: "etapa3_proposta_cadastro example_config ?L ?h (PStr (str ''cli-1'')) (PStr (str ''sim-1''))
              = ([proposta_request example_config ?h (PStr (str ''cli-1'')) (PStr (str ''sim-1''))],
                 Inr (PStr (str ''AF-1''), PStr (str ''https://f/AF-1'')))"
    by (rule example_etapa3) (simp add: until_proposal_def)
  have h8: "?L (envio_request example_config ?h (PStr (str ''AF-1''))) = Inr html_response"
    by (simp add: until_proposal_def)
  note t = send_link_response_is_ignored [OF h1 h2 h3 h4 h5 h6 h7 h8, THEN conjunct1]
  have s: "snd (formalizar example_config ascii_runtime ?L example_body)
       = Inr (PDict [(str ''status'', PStr (str ''ok'')),
                     (str ''mensagem'', PStr (str ''Proposta criada e link enviado.'')),
                     (str ''codigo'', PStr (str ''AF-1'')),
                     (str ''url_formalizacao'', PStr (str ''https://f/AF-1''))])"
    unfolding t by simp
  have u: "map url (fst (formalizar example_config ascii_runtime ?L example_body))
       = [str ''https://webservice-homol.facta.com.br/gera-token'',
          str ''https://webservice-homol.facta.com.br/proposta/operacoes-disponiveis'',
          str ''https://webservice-homol.facta.com.br/proposta/etapa1-simulador'',
          str ''https://webservice-homol.facta.com.br/proposta/etapa2-dados-pessoais'',
          str ''https://webservice-homol.facta.com.br/proposta/etapa3-proposta-cadastro'',
          str ''https://webservice-homol.facta.com.br/proposta/envio-link'']"
    unfolding t by simp
  have i: "is_html html_response" by simp
  from h1 h7 h8 i s u show ?thesis by (intro conjI)
qed

text \<open>
  Read with the marker \<^verbatim>\<open>"WhatsApp"\<close> and with any outcome of the call, the property
  fails twice: the marker that is sent is \<^verbatim>\<open>"Whatsapp"\<close>; and a send-link call that raises (the lender does not answer) ends the
  formalization with that exception, after the proposal has been created.
\<close>

theorem send_link_counterexample:
  "map_of (payload (envio_request example_config (bearer ascii_runtime (PStr (str ''abc'')))
             (PStr (str ''AF-1'')))) (str ''tipo_envio'')
     \<noteq> Some (PStr (str ''WhatsApp''))
   \<and> scripted until_proposal
        (envio_request example_config (bearer ascii_runtime (PStr (str ''abc''))) (PStr (str ''AF-1'')))
       = Inl TransportError
   \<and> snd (formalizar example_config ascii_runtime (scripted until_proposal) example_body)
       = Inl (Unhandled TransportError)
   \<and> map url (fst (formalizar example_config ascii_runtime (scripted until_proposal) example_body))
       = [str ''https://webservice-homol.facta.com.br/gera-token'',
          str ''https://webservice-homol.facta.com.br/proposta/operacoes-disponiveis'',
          str ''https://webservice-homol.facta.com.br/proposta/etapa1-simulador'',
          str ''https://webservice-homol.facta.com.br/proposta/etapa2-dados-pessoais'',
          str ''https://webservice-homol.facta.com.br/proposta/etapa3-proposta-cadastro'',
          str ''https://webservice-homol.facta.com.br/proposta/envio-link'']"
proof -
  let ?L = "scripted until_proposal"
  let ?h = "bearer ascii_runtime (PStr (str ''abc''))"
  let ?c = "str ''12345678909''"
  obtain fd where fd: "fd1 example_config ascii_runtime ?c example_body table_b = Inr fd"
    by (simp add: example_fd1_b)
  have h1: "get_token example_config ascii_runtime ?L
              = ([gera_token example_config], Inr (PStr (str ''abc'')))"
    unfolding until_proposal_def by (rule example_token)
  have h4: "operacoes_disponiveis example_config ascii_runtime ?L ?h ?c example_body
              = ([operacoes_request example_config ?h ?c example_body], Inr table_b)"
    by (rule example_operacoes) (simp add: until_proposal_def)
  have h5: "etapa1_simulador example_config ascii_runtime ?L ?h ?c example_body table_b
              = ([simulador_request example_config ?h fd], Inr (PStr (str ''sim-1'')))"
    by (rule example_etapa1 [OF fd]) (simp add: until_proposal_def)
  have h6: "etapa2_dados_pessoais example_config ?L ?h ?c example_body (PStr (str ''sim-1''))
              = ([dados_request example_config ?h ?c example_body (PStr (str ''sim-1''))],
                 Inr (PStr (str ''cli-1'')))"
    by (rule example_etapa2) (simp add: until_proposal_def)
  have h7: "etapa3_proposta_cadastro example_config ?L ?h (PStr (str ''cli-1'')) (PStr (str ''sim-1''))
              = ([proposta_request example_config ?h (PStr (str ''cli-1'')) (PStr (str ''sim-1''))],
                 Inr (PStr (str ''AF-1''), PStr (str ''https://f/AF-1'')))"
    by (rule example_etapa3) (simp add: until_proposal_def)
  have h8: "?L (envio_request example_config ?h (PStr (str ''AF-1''))) = Inl TransportError"
    by (simp add: until_proposal_def)
  have e: "envio_link example_config ?L ?h (PStr (str ''AF-1''))
             = ([envio_request example_config ?h (PStr (str ''AF-1''))], Inl (Unhandled TransportError))"
    using h8 by (simp add: envio_send)
  have t: "formalizar example_config ascii_runtime ?L example_body
             = ([gera_token example_config, operacoes_request example_config ?h ?c example_body,
                 simulador_request example_config ?h fd,
                 dados_request example_config ?h ?c example_body (PStr (str ''sim-1'')),
                 proposta_request example_config ?h (PStr (str ''cli-1'')) (PStr (str ''sim-1'')),
                 envio_request example_config ?h (PStr (str ''AF-1''))],
                Inl (Unhandled TransportError))"
    unfolding formalizar_def Let_def example_cpf h1 by (simp add: h4 h5 h6 h7 e)
  have m: "map_of (payload (envio_request example_config ?h (PStr (str ''AF-1'')))) (str ''tipo_envio'')
             \<noteq> Some (PStr (str ''WhatsApp''))"
    by (simp add: envio_request_def)
  have s: "snd (formalizar example_config ascii_runtime ?L example_body) = Inl (Unhandled TransportError)"
    unfolding t by simp
  have u: "map url (fst (formalizar example_config ascii_runtime ?L example_body))
       = [str ''https://webservice-homol.facta.com.br/gera-token'',
          str ''https://webservice-homol.facta.com.br/proposta/operacoes-disponiveis'',
          str ''https://webservice-homol.facta.com.br/proposta/etapa1-simulador'',
          str ''https://webservice-homol.facta.com.br/proposta/etapa2-dados-pessoais'',
          str ''https://webservice-homol.facta.com.br/proposta/etapa3-proposta-cadastro'',
          str ''https://webservice-homol.facta.com.br/proposta/envio-link'']"
    unfolding t by simp
  from m h8 s u show ?thesis by (intro conjI)
qed

lemma example_best_uncoded:
  "best_of ascii_runtime (PList [table_a, table_uncoded]) = Inr table_uncoded"
  by (simp add: best_of_def py_iter_def sorted_reverse_def list_sort_def net_key_def
        py_float_def table_uncoded_def table_a_def)

lemma example_best_c: "best_of ascii_runtime (PList [table_c]) = Inr table_c"
  by (simp add: best_of_def py_iter_def sorted_reverse_def list_sort_def)

theorem table_code_and_term_are_required_witness:
  "operacoes_disponiveis example_config ascii_runtime
      (scripted [(''/gera-token'', token_abc), (''/proposta/operacoes-disponiveis'', tabelas_uncoded)])
      (bearer ascii_runtime (PStr (str ''abc''))) (str ''12345678909'') example_body
     = ([operacoes_request example_config (bearer ascii_runtime (PStr (str ''abc'')))
           (str ''12345678909'') example_body], Inr table_uncoded)
   \<and> py_index table_uncoded (str ''codigoTabela'') = Inl KeyError
   \<and> formalizar example_config ascii_runtime
        (scripted [(''/gera-token'', token_abc), (''/proposta/operacoes-disponiveis'', tabelas_uncoded)])
        example_body
       = ([gera_token example_config,
           operacoes_request example_config (bearer ascii_runtime (PStr (str ''abc'')))
             (str ''12345678909'') example_body],
          Inl (Unhandled KeyError))
   \<and> operacoes_disponiveis example_config ascii_runtime
        (scripted [(''/gera-token'', token_abc), (''/proposta/operacoes-disponiveis'', tabelas_c)])
        (bearer ascii_runtime (PStr (str ''abc''))) (str ''12345678909'') example_body
       = ([operacoes_request example_config (bearer ascii_runtime (PStr (str ''abc'')))
             (str ''12345678909'') example_body], Inr table_c)
   \<and> (\<exists>fd rest res.
         formalizar example_config ascii_runtime
           (scripted [(''/gera-token'', token_abc), (''/proposta/operacoes-disponiveis'', tabelas_c)])
           example_body
          = ([gera_token example_config,
              operacoes_request example_config (bearer ascii_runtime (PStr (str ''abc'')))
                (str ''12345678909'') example_body]
             @ simulador_request example_config (bearer ascii_runtime (PStr (str ''abc''))) fd # rest,
             res)
         \<and> map_of fd (str ''codigo_tabela'') = Some (PStr (str ''C''))
         \<and> map_of fd (str ''prazo'') = Some (PStr (str ''96''))
         \<and> map_of fd (str ''valor_operacao'') = Some (PStr (str ''1500''))
         \<and> map_of fd (str ''valor_parcela'') = Some (PStr (str ''0''))
         \<and> map_of fd (str ''coeficiente'') = Some (PStr (str ''None'')))"
proof -
  let ?h = "bearer ascii_runtime (PStr (str ''abc''))"
  let ?c = "str ''12345678909''"
  let ?U = "scripted [(''/gera-token'', token_abc), (''/proposta/operacoes-disponiveis'', tabelas_uncoded)]"
  let ?C = "scripted [(''/gera-token'', token_abc), (''/proposta/operacoes-disponiveis'', tabelas_c)]"
  have h2: "?h = bearer ascii_runtime (PStr (str ''abc''))" by simp
  have h3: "?c = digits ascii_runtime (Some (FormalizarIn.cpf example_body))" by simp
  have u1: "get_token example_config ascii_runtime ?U
              = ([gera_token example_config], Inr (PStr (str ''abc'')))"
    by (rule example_token)
  have u4: "operacoes_disponiveis example_config ascii_runtime ?U ?h ?c example_body
              = ([operacoes_request example_config ?h ?c example_body],
                 Inr (PDict [(str ''prazo'', PInt 84), (str ''valor_liquido'', PInt 2000)]))"
    using operacoes_best [where L = ?U and cfg = example_config and h = ?h and c = ?c
        and body = example_body and r = tabelas_uncoded and rt = ascii_runtime
        and d = "[(str ''tabelas'', PList [table_a, table_uncoded])]"
        and t = "PList [table_a, table_uncoded]"]
    by (simp add: tabelas_uncoded_def example_best_uncoded) (simp add: table_uncoded_def)
  have u5: "map_of [(str ''prazo'', PInt 84), (str ''valor_liquido'', PInt 2000)] (str ''codigoTabela'') = None
            \<or> map_of [(str ''prazo'', PInt 84), (str ''valor_liquido'', PInt 2000)] (str ''prazo'') = None"
    by simp
  note a = table_code_and_term_are_required [OF u1 h2 h3 u4, THEN conjunct1, THEN mp, OF u5, THEN conjunct1]
  have fa: "formalizar example_config ascii_runtime ?U example_body
       = ([gera_token example_config, operacoes_request example_config ?h ?c example_body],
          Inl (Unhandled KeyError))"
    using a by simp
  have ua: "operacoes_disponiveis example_config ascii_runtime ?U ?h ?c example_body
              = ([operacoes_request example_config ?h ?c example_body], Inr table_uncoded)"
    using u4 by (simp add: table_uncoded_def)
  have ka: "py_index table_uncoded (str ''codigoTabela'') = Inl KeyError"
    by (simp add: py_index_def table_uncoded_def)
  have c1: "get_token example_config ascii_runtime ?C
              = ([gera_token example_config], Inr (PStr (str ''abc'')))"
    by (rule example_token)
  have c4: "operacoes_disponiveis example_config ascii_runtime ?C ?h ?c example_body
              = ([operacoes_request example_config ?h ?c example_body],
                 Inr (PDict [(str ''codigoTabela'', PStr (str ''C'')), (str ''prazo'', PInt 96),
                             (str ''valor_liquido'', PInt 1500)]))"
    using operacoes_best [where L = ?C and cfg = example_config and h = ?h and c = ?c
        and body = example_body and r = tabelas_c and rt = ascii_runtime
        and d = "[(str ''tabelas'', PList [table_c])]" and t = "PList [table_c]"]
    by (simp add: tabelas_c_def example_best_c) (simp add: table_c_def)
  have cc: "operacoes_disponiveis example_config ascii_runtime ?C ?h ?c example_body
              = ([operacoes_request example_config ?h ?c example_body], Inr table_c)"
    using c4 by (simp add: table_c_def)
  have c5: "map_of [(str ''codigoTabela'', PStr (str ''C'')), (str ''prazo'', PInt 96),
                    (str ''valor_liquido'', PInt 1500)] (str ''codigoTabela'') = Some (PStr (str ''C''))
            \<and> map_of [(str ''codigoTabela'', PStr (str ''C'')), (str ''prazo'', PInt 96),
                    (str ''valor_liquido'', PInt 1500)] (str ''prazo'') = Some (PInt 96)"
    by simp
  note b = table_code_and_term_are_required [OF c1 h2 h3 c4, THEN conjunct2, THEN spec, THEN spec,
              THEN mp, OF c5]
  then obtain fd rest res where
    f: "formalizar example_config ascii_runtime ?C example_body
          = ([gera_token example_config] @ [operacoes_request example_config ?h ?c example_body]
             @ simulador_request example_config ?h fd # rest, res)"
    and m: "map_of fd (str ''codigo_tabela'') = Some (PStr (py_str ascii_runtime (PStr (str ''C''))))"
      "map_of fd (str ''prazo'') = Some (PStr (py_str ascii_runtime (PInt 96)))"
      "map_of fd (str ''valor_operacao'')
         = Some (PStr (py_str ascii_runtime
             (case map_of [(str ''codigoTabela'', PStr (str ''C'')), (str ''prazo'', PInt 96),
                           (str ''valor_liquido'', PInt 1500)] (str ''contrato'') of
                Some v \<Rightarrow> v
              | None \<Rightarrow> (case map_of [(str ''codigoTabela'', PStr (str ''C'')), (str ''prazo'', PInt 96),
                           (str ''valor_liquido'', PInt 1500)] (str ''valor_liquido'') of
                           Some v \<Rightarrow> v | None \<Rightarrow> PInt 0))))"
      "map_of fd (str ''valor_parcela'')
         = Some (PStr (py_str ascii_runtime
             (case map_of [(str ''codigoTabela'', PStr (str ''C'')), (str ''prazo'', PInt 96),
                           (str ''valor_liquido'', PInt 1500)] (str ''parcela'') of
                Some v \<Rightarrow> v | None \<Rightarrow> PInt 0)))"
      "map_of fd (str ''coeficiente'')
         = Some (PStr (py_str ascii_runtime
             (case map_of [(str ''codigoTabela'', PStr (str ''C'')), (str ''prazo'', PInt 96),
                           (str ''valor_liquido'', PInt 1500)] (str ''coeficiente'') of
                Some v \<Rightarrow> v | None \<Rightarrow> PNone)))"
    by blast
  from m have m': "map_of fd (str ''codigo_tabela'') = Some (PStr (str ''C''))"
      "map_of fd (str ''prazo'') = Some (PStr (str ''96''))"
      "map_of fd (str ''valor_operacao'') = Some (PStr (str ''1500''))"
      "map_of fd (str ''valor_parcela'') = Some (PStr (str ''0''))"
      "map_of fd (str ''coeficiente'') = Some (PStr (str ''None''))"
    by (simp_all add: py_str_def)
  from f m' have e: "\<exists>fd rest res.
         formalizar example_config ascii_runtime ?C example_body
          = ([gera_token example_config, operacoes_request example_config ?h ?c example_body]
             @ simulador_request example_config ?h fd # rest, res)
         \<and> map_of fd (str ''codigo_tabela'') = Some (PStr (str ''C''))
         \<and> map_of fd (str ''prazo'') = Some (PStr (str ''96''))
         \<and> map_of fd (str ''valor_operacao'') = Some (PStr (str ''1500''))
         \<and> map_of fd (str ''valor_parcela'') = Some (PStr (str ''0''))
         \<and> map_of fd (str ''coeficiente'') = Some (PStr (str ''None''))"
    by auto
  from ua ka fa cc e show ?thesis by (intro conjI)
qed

section \<open>HTML answers\<close>

lemma html_token:
  "L (gera_token cfg) = Inr r \<Longrightarrow> is_html r \<Longrightarrow>
   get_token cfg rt L = ([gera_token cfg], Inl (HTTPException 502 TokenHtml))"
  by (simp add: get_token_send fail_def)

lemma html_consulta:
  "get_token cfg rt L = (tr, Inr token) \<Longrightarrow>
   L (consulta_request cfg rt token (digits rt (Some (ConsultaIn.cpf body)))) = Inr r \<Longrightarrow> is_html r \<Longrightarrow>
   consulta_ofertas cfg rt L body
     = (tr @ [consulta_request cfg rt token (digits rt (Some (ConsultaIn.cpf body)))],
        Inl (HTTPException 502 ConsultaHtml))"
  by (simp add: consulta_send fail_def)

text \<open>
  C2. The token exchange and the offer lookup classify an HTML answer (the two lemmas
  above). The formalization does not look at the content type: when the available
  operations answer with the HTML page of a block, \<^verbatim>\<open>r1.json()\<close> raises and the run ends
  with that uncaught exception, which is not the 502 of an HTML answer.
\<close>

theorem html_answer_to_formalizar_is_not_classified:
  "scripted [(''/gera-token'', token_abc), (''/proposta/operacoes-disponiveis'', html_response)]
      (operacoes_request example_config (bearer rt (PStr (str ''abc'')))
         (digits rt (Some (FormalizarIn.cpf example_body))) example_body)
     = Inr html_response
   \<and> is_html html_response
   \<and> formalizar example_config rt
        (scripted [(''/gera-token'', token_abc), (''/proposta/operacoes-disponiveis'', html_response)])
        example_body
       = ([gera_token example_config,
           operacoes_request example_config (bearer rt (PStr (str ''abc'')))
             (digits rt (Some (FormalizarIn.cpf example_body))) example_body],
          Inl (Unhandled JSONDecodeError))
   \<and> spec_kind (Unhandled JSONDecodeError) \<noteq> UpstreamBlocked"
proof -
  let ?L = "scripted [(''/gera-token'', token_abc), (''/proposta/operacoes-disponiveis'', html_response)]"
  let ?rq = "operacoes_request example_config (bearer rt (PStr (str ''abc'')))
         (digits rt (Some (FormalizarIn.cpf example_body))) example_body"
  have a: "?L ?rq = Inr html_response" by simp
  have t: "get_token example_config rt ?L = ([gera_token example_config], Inr (PStr (str ''abc'')))"
    by (rule example_token)
  have o: "operacoes_disponiveis example_config rt ?L (bearer rt (PStr (str ''abc'')))
             (digits rt (Some (FormalizarIn.cpf example_body))) example_body
           = ([?rq], Inl (Unhandled JSONDecodeError))"
    using a by (simp add: operacoes_send)
  have f: "formalizar example_config rt ?L example_body
             = ([gera_token example_config, ?rq], Inl (Unhandled JSONDecodeError))"
    unfolding formalizar_def Let_def t by (simp add: o)
  have i: "is_html html_response" by simp
  have k: "spec_kind (Unhandled JSONDecodeError) \<noteq> UpstreamBlocked" by simp
  from a i f k show ?thesis by (intro conjI)
qed

section \<open>A net value that is missing or is not a number\<close>






section \<open>The outcomes of the token exchange\<close>

lemma spec_kind_token [simp]:
  "spec_kind (HTTPException 502 TokenHtml) = UpstreamBlocked"
  "spec_kind (HTTPException 502 (TokenError t)) = UpstreamUnavailable"
  "spec_kind (HTTPException 502 (TokenVazio j)) = UpstreamProtocolError"
  by simp_all

text \<open>
  C6 (amended). When the lender answers the token exchange, \<^verbatim>\<open>get_token\<close> tests the
  answer in this order: a content type that begins with \<^verbatim>\<open>text/html\<close> is the 502 of
  UpstreamBlocked, whatever the status; otherwise a status other than 200 is the 502
  of UpstreamUnavailable, with the text of the answer; otherwise, when the body is a
  JSON object, an absent or falsy \<^verbatim>\<open>token\<close> is the 502 of UpstreamProtocolError, and a
  truthy \<^verbatim>\<open>token\<close> is returned as it is, a string or not. A body that is not JSON, a
  body that is JSON and not an object, and a call that raises end the exchange with
  the exception, which has no classification.
\<close>

theorem token_outcomes_in_order:
  "(\<forall>r. L (gera_token cfg) = Inr r \<and> is_html r
        \<longrightarrow> get_token cfg rt L = ([gera_token cfg], Inl (HTTPException 502 TokenHtml))
            \<and> spec_kind (HTTPException 502 TokenHtml) = UpstreamBlocked)
   \<and> (\<forall>r. L (gera_token cfg) = Inr r \<and> \<not> is_html r \<and> status_code r \<noteq> 200
        \<longrightarrow> get_token cfg rt L = ([gera_token cfg], Inl (HTTPException 502 (TokenError (r_text r))))
            \<and> spec_kind (HTTPException 502 (TokenError (r_text r))) = UpstreamUnavailable)
   \<and> (\<forall>r d. L (gera_token cfg) = Inr r \<and> \<not> is_html r \<and> status_code r = 200
            \<and> json_body r = Some (PDict d)
            \<and> (case map_of d (str ''token'') of None \<Rightarrow> True | Some v \<Rightarrow> \<not> truthy v)
        \<longrightarrow> get_token cfg rt L = ([gera_token cfg], Inl (HTTPException 502 (TokenVazio (PDict d))))
            \<and> spec_kind (HTTPException 502 (TokenVazio (PDict d))) = UpstreamProtocolError)
   \<and> (\<forall>r d v. L (gera_token cfg) = Inr r \<and> \<not> is_html r \<and> status_code r = 200
            \<and> json_body r = Some (PDict d) \<and> map_of d (str ''token'') = Some v \<and> truthy v
        \<longrightarrow> get_token cfg rt L = ([gera_token cfg], Inr v))
   \<and> (\<forall>r. L (gera_token cfg) = Inr r \<and> \<not> is_html r \<and> status_code r = 200
            \<and> json_body r = None
        \<longrightarrow> get_token cfg rt L = ([gera_token cfg], Inl (Unhandled JSONDecodeError)))
   \<and> (\<forall>r j. L (gera_token cfg) = Inr r \<and> \<not> is_html r \<and> status_code r = 200
            \<and> json_body r = Some j \<and> (case j of PDict d \<Rightarrow> False | _ \<Rightarrow> True)
        \<longrightarrow> get_token cfg rt L = ([gera_token cfg], Inl (Unhandled AttributeError)))
   \<and> (\<forall>x. L (gera_token cfg) = Inl x
        \<longrightarrow> get_token cfg rt L = ([gera_token cfg], Inl (Unhandled x)))"
proof (intro conjI allI impI; (elim conjE)?)
  fix r assume "L (gera_token cfg) = Inr r" "is_html r"
  then show "get_token cfg rt L = ([gera_token cfg], Inl (HTTPException 502 TokenHtml))"
    by (simp add: get_token_send fail_def)
next
  fix r assume "L (gera_token cfg) = Inr r" "\<not> is_html r" "status_code r \<noteq> 200"
  then show "get_token cfg rt L = ([gera_token cfg], Inl (HTTPException 502 (TokenError (r_text r))))"
    by (simp add: get_token_send fail_def)
next
  fix r d assume "L (gera_token cfg) = Inr r" "\<not> is_html r" "status_code r = 200"
    "json_body r = Some (PDict d)"
    "case map_of d (str ''token'') of None \<Rightarrow> True | Some v \<Rightarrow> \<not> truthy v"
  then show "get_token cfg rt L = ([gera_token cfg], Inl (HTTPException 502 (TokenVazio (PDict d))))"
    by (auto simp: get_token_send fail_def split: option.splits)
next
  fix r d v assume "L (gera_token cfg) = Inr r" "\<not> is_html r" "status_code r = 200"
    "json_body r = Some (PDict d)" "map_of d (str ''token'') = Some v" "truthy v"
  then show "get_token cfg rt L = ([gera_token cfg], Inr v)"
    by (simp add: get_token_send ret_def)
next
  fix r assume "L (gera_token cfg) = Inr r" "\<not> is_html r" "status_code r = 200"
    "json_body r = None"
  then show "get_token cfg rt L = ([gera_token cfg], Inl (Unhandled JSONDecodeError))"
    by (simp add: get_token_send r_json_def)
next
  fix r j assume "L (gera_token cfg) = Inr r" "\<not> is_html r" "status_code r = 200"
    "json_body r = Some j" "case j of PDict d \<Rightarrow> False | _ \<Rightarrow> True"
  then show "get_token cfg rt L = ([gera_token cfg], Inl (Unhandled AttributeError))"
    by (cases j) (simp_all add: get_token_send r_json_def py_get_def)
next
  fix x assume "L (gera_token cfg) = Inl x"
  then show "get_token cfg rt L = ([gera_token cfg], Inl (Unhandled x))"
    by (simp add: get_token_send)
qed simp_all

theorem token_outcomes_in_order_witness:
  "get_token example_config ascii_runtime (scripted [(''/gera-token'', html_response)])
     = ([gera_token example_config], Inl (HTTPException 502 TokenHtml))
   \<and> get_token example_config ascii_runtime (scripted [(''/gera-token'', unavailable_response)])
     = ([gera_token example_config],
        Inl (HTTPException 502 (TokenError (str ''Service Unavailable''))))
   \<and> get_token example_config ascii_runtime
        (scripted [(''/gera-token'', json_response (PDict [(str ''token'', PStr [])]))])
     = ([gera_token example_config],
        Inl (HTTPException 502 (TokenVazio (PDict [(str ''token'', PStr [])]))))
   \<and> get_token example_config ascii_runtime (scripted [(''/gera-token'', token_abc)])
     = ([gera_token example_config], Inr (PStr (str ''abc'')))
   \<and> is_html html_response
   \<and> status_code unavailable_response = 503"
proof -
  note T = token_outcomes_in_order [where cfg = example_config and rt = ascii_runtime]
  have h1: "scripted [(''/gera-token'', html_response)] (gera_token example_config) = Inr html_response
            \<and> is_html html_response"
    by simp
  note t1 = T [where L = "scripted [(''/gera-token'', html_response)]",
               THEN conjunct1, THEN spec, THEN mp, OF h1, THEN conjunct1]
  have s: "status_code unavailable_response = 503" by (simp add: unavailable_response_def)
  have h2: "scripted [(''/gera-token'', unavailable_response)] (gera_token example_config)
              = Inr unavailable_response
            \<and> \<not> is_html unavailable_response \<and> status_code unavailable_response \<noteq> 200"
    by (simp add: unavailable_response_def is_html_def startswith_def)
  note t2 = T [where L = "scripted [(''/gera-token'', unavailable_response)]",
               THEN conjunct2, THEN conjunct1, THEN spec, THEN mp, OF h2, THEN conjunct1]
  have a2: "get_token example_config ascii_runtime (scripted [(''/gera-token'', unavailable_response)])
     = ([gera_token example_config],
        Inl (HTTPException 502 (TokenError (str ''Service Unavailable''))))"
    unfolding t2 by (simp add: unavailable_response_def)
  have h3: "scripted [(''/gera-token'', json_response (PDict [(str ''token'', PStr [])]))]
              (gera_token example_config)
              = Inr (json_response (PDict [(str ''token'', PStr [])]))
            \<and> \<not> is_html (json_response (PDict [(str ''token'', PStr [])]))
            \<and> status_code (json_response (PDict [(str ''token'', PStr [])])) = 200
            \<and> json_body (json_response (PDict [(str ''token'', PStr [])]))
                = Some (PDict [(str ''token'', PStr [])])
            \<and> (case map_of [(str ''token'', PStr [])] (str ''token'') of
                  None \<Rightarrow> True | Some v \<Rightarrow> \<not> truthy v)"
    by simp
  note t3 = T [where L = "scripted [(''/gera-token'', json_response (PDict [(str ''token'', PStr [])]))]",
               THEN conjunct2, THEN conjunct2, THEN conjunct1, THEN spec, THEN spec, THEN mp,
               OF h3, THEN conjunct1]
  have h4: "scripted [(''/gera-token'', token_abc)] (gera_token example_config) = Inr token_abc
            \<and> \<not> is_html token_abc \<and> status_code token_abc = 200
            \<and> json_body token_abc = Some (PDict [(str ''token'', PStr (str ''abc''))])
            \<and> map_of [(str ''token'', PStr (str ''abc''))] (str ''token'') = Some (PStr (str ''abc''))
            \<and> truthy (PStr (str ''abc''))"
    by (simp add: token_abc_def)
  note t4 = T [where L = "scripted [(''/gera-token'', token_abc)]",
               THEN conjunct2, THEN conjunct2, THEN conjunct2, THEN conjunct1,
               THEN spec, THEN spec, THEN spec, THEN mp, OF h4]
  have i: "is_html html_response" by simp
  from t1 a2 t3 t4 i s show ?thesis by (intro conjI)
qed

text \<open>
  Read as a classification of every failure, and with a token that is a string, the
  property fails: a body that is JSON and has no \<^verbatim>\<open>token\<close> field because it is a list
  raises \<^verbatim>\<open>AttributeError\<close>, a body of status 200 that is not JSON raises
  \<^verbatim>\<open>JSONDecodeError\<close>, a lender that does not answer raises the error of the transport,
  and none of them is caught; and a token that is a number is returned as a number.
\<close>

theorem token_counterexample:
  "get_token example_config ascii_runtime (scripted [(''/gera-token'', json_response (PList []))])
     = ([gera_token example_config], Inl (Unhandled AttributeError))
   \<and> get_token example_config ascii_runtime (scripted [(''/gera-token'', plain_response)])
     = ([gera_token example_config], Inl (Unhandled JSONDecodeError))
   \<and> get_token example_config ascii_runtime (scripted [])
     = ([gera_token example_config], Inl (Unhandled TransportError))
   \<and> get_token example_config ascii_runtime
        (scripted [(''/gera-token'', json_response (PDict [(str ''token'', PInt 7)]))])
     = ([gera_token example_config], Inr (PInt 7))
   \<and> spec_kind (Unhandled AttributeError) = Unclassified AttributeError
   \<and> spec_kind (Unhandled JSONDecodeError) = Unclassified JSONDecodeError
   \<and> spec_kind (Unhandled TransportError) = Unclassified TransportError"
proof -
  have a: "get_token example_config ascii_runtime (scripted [(''/gera-token'', json_response (PList []))])
     = ([gera_token example_config], Inl (Unhandled AttributeError))"
    by (simp add: get_token_send py_get_def)
  have b: "get_token example_config ascii_runtime (scripted [(''/gera-token'', plain_response)])
     = ([gera_token example_config], Inl (Unhandled JSONDecodeError))"
    by (simp add: get_token_send plain_response_def is_html_def startswith_def r_json_def)
  have c: "get_token example_config ascii_runtime (scripted [])
     = ([gera_token example_config], Inl (Unhandled TransportError))"
    by (simp add: get_token_send)
  have d: "get_token example_config ascii_runtime
        (scripted [(''/gera-token'', json_response (PDict [(str ''token'', PInt 7)]))])
     = ([gera_token example_config], Inr (PInt 7))"
    by (simp add: get_token_send ret_def)
  have k1: "spec_kind (Unhandled AttributeError) = Unclassified AttributeError" by simp
  have k2: "spec_kind (Unhandled JSONDecodeError) = Unclassified JSONDecodeError" by simp
  have k3: "spec_kind (Unhandled TransportError) = Unclassified TransportError" by simp
  from a b c d k1 k2 k3 show ?thesis by (intro conjI)
qed

section \<open>The offers of a lookup\<close>












end
